theory Spec2Isabelle
  imports Complex_Main "HOL-Library.Char_ord" "HOL-Library.List_Lexorder" "HOL-Library.Sublist"
    "HOL-Library.Multiset"
begin

section \<open>Values of the program\<close>

text \<open>
  The router's answer is a parsed JSON document. Its values are the Python values
  \<open>None\<close>, \<open>bool\<close>, \<open>int\<close> (unbounded), \<open>float\<close>, \<open>str\<close>, \<open>list\<close> and \<open>dict\<close>.
  A float is given by the exact rational value of the binary64 number it holds; the
  non-finite floats, which standard JSON cannot write, are not values of the model, and
  an operation that would produce one says so (see \<open>float_mul\<close>). A string is the
  sequence of its UTF-8 bytes: the byte-wise lexicographic order is the order of the code
  points, which is the order Python compares strings by. A dict is the list of its items.
\<close>

datatype json =
    JNull
  | JBool bool
  | JInt int
  | JFloat rat
  | JStr string
  | JArr "json list"
  | JObj "(string \<times> json) list"

datatype error = KeyError | TypeError | ValueError | OverflowError

definition bnd :: "error + 'a \<Rightarrow> ('a \<Rightarrow> error + 'b) \<Rightarrow> error + 'b" where
  "bnd m f = (case m of Inl e \<Rightarrow> Inl e | Inr v \<Rightarrow> f v)"

text \<open>\<open>obj[key]\<close> with a string key: only a dict can be subscripted by a string.\<close>

fun getitem :: "json \<Rightarrow> string \<Rightarrow> error + json" where
  "getitem (JObj kvs) k = (case map_of kvs k of None \<Rightarrow> Inl KeyError | Some v \<Rightarrow> Inr v)"
| "getitem _ k = Inl TypeError"

fun is_substring :: "string \<Rightarrow> string \<Rightarrow> bool" where
  "is_substring xs [] = (xs = [])"
| "is_substring xs (y # ys) = (prefix xs (y # ys) \<or> is_substring xs ys)"

text \<open>
  \<open>key in obj\<close> with a string key: membership among the keys of a dict, among the
  elements of a list, substring test on a string, and a TypeError on the values that
  are not containers.
\<close>

fun contains :: "string \<Rightarrow> json \<Rightarrow> error + bool" where
  "contains k (JObj kvs) = Inr (map_of kvs k \<noteq> None)"
| "contains k (JArr xs) = Inr (JStr k \<in> set xs)"
| "contains k (JStr s) = Inr (is_substring k s)"
| "contains k _ = Inl TypeError"

text \<open>\<open>for x in obj\<close>: the elements of a list, the keys of a dict, the characters of a string.\<close>

fun iter :: "json \<Rightarrow> error + json list" where
  "iter (JArr xs) = Inr xs"
| "iter (JObj kvs) = Inr (map (\<lambda>kv. JStr (fst kv)) kvs)"
| "iter (JStr s) = Inr (map (\<lambda>c. JStr [c]) s)"
| "iter _ = Inl TypeError"

text \<open>Truth value of a Python value, as \<open>if v:\<close> and \<open>v and ...\<close> take it.\<close>

fun truthy :: "json \<Rightarrow> bool" where
  "truthy JNull = False"
| "truthy (JBool b) = b"
| "truthy (JInt i) = (i \<noteq> 0)"
| "truthy (JFloat r) = (r \<noteq> 0)"
| "truthy (JStr s) = (s \<noteq> [])"
| "truthy (JArr xs) = (xs \<noteq> [])"
| "truthy (JObj kvs) = (kvs \<noteq> [])"

subsection \<open>Floating point\<close>

text \<open>
  Python's float is IEEE 754 binary64 with round-to-nearest, ties-to-even. \<open>round64 x\<close> is
  the binary64 number nearest to the rational \<open>x\<close>, with the exponent unbounded above
  (gradual underflow below \<open>2 ^ -1022\<close>); \<open>ilog2 x\<close> is the exponent of a positive \<open>x\<close>, the
  \<open>e\<close> with \<open>2 ^ e \<le> x < 2 ^ (e + 1)\<close>; \<open>overflows\<close> tells that the rounded value is
  \<open>2 ^ 1024\<close> or more in magnitude, out of the range of binary64, where the hardware
  gives an infinity.
\<close>

definition pow2 :: "int \<Rightarrow> rat" where
  "pow2 k = (if 0 \<le> k then 2 ^ nat k else 1 / 2 ^ nat (- k))"

function bits :: "int \<Rightarrow> int" where
  "bits n = (if n \<le> 0 then 0 else 1 + bits (n div 2))"
  by pat_completeness auto
termination
  by (relation "measure nat") auto

declare bits.simps [simp del]

definition ilog2 :: "rat \<Rightarrow> int" where
  "ilog2 x = (let (a, b) = quotient_of x;
                  e = bits a - bits b
              in if pow2 e \<le> x then e else e - 1)"

definition round_half_even :: "rat \<Rightarrow> int" where
  "round_half_even q = (let f = \<lfloor>q\<rfloor>; d = q - of_int f
     in if d < 1 / 2 then f else if 1 / 2 < d then f + 1 else if even f then f else f + 1)"

definition round64 :: "rat \<Rightarrow> rat" where
  "round64 x = (if x = 0 then 0
     else let e = max (ilog2 \<bar>x\<bar>) (- 1022); u = pow2 (e - 52)
          in of_int (round_half_even (x / u)) * u)"

definition overflows :: "rat \<Rightarrow> bool" where
  "overflows x = (x \<noteq> 0 \<and> 1024 \<le> ilog2 \<bar>x\<bar>)"

text \<open>
  \<open>float(v)\<close>. An int too large for binary64 raises OverflowError, \<open>None\<close> and the
  containers raise TypeError. What \<open>float\<close> makes of a string is Python's own parser,
  which is not code of this program: it is the parameter \<open>fstr\<close>, \<open>None\<close> where the string
  is not a number (ValueError).
\<close>

fun py_float :: "(string \<Rightarrow> rat option) \<Rightarrow> json \<Rightarrow> error + rat" where
  "py_float fstr (JFloat r) = Inr r"
| "py_float fstr (JInt i) =
     (if overflows (round64 (of_int i)) then Inl OverflowError else Inr (round64 (of_int i)))"
| "py_float fstr (JBool b) = Inr (if b then 1 else 0)"
| "py_float fstr (JStr s) = (case fstr s of None \<Rightarrow> Inl ValueError | Some r \<Rightarrow> Inr r)"
| "py_float fstr _ = Inl TypeError"

text \<open>\<open>x / 1000\<close> on a float: the quotient, rounded; it cannot overflow.\<close>

definition float_div :: "rat \<Rightarrow> rat \<Rightarrow> rat" where
  "float_div x y = round64 (x / y)"

text \<open>\<open>x * y\<close> on floats: the product, rounded; \<open>None\<close> when the result is an infinity.\<close>

definition float_mul :: "rat \<Rightarrow> rat \<Rightarrow> rat option" where
  "float_mul x y = (if overflows (round64 (x * y)) then None else Some (round64 (x * y)))"

text \<open>\<open>int(x)\<close> on a finite float: truncation towards zero.\<close>

definition trunc :: "rat \<Rightarrow> int" where
  "trunc r = (if 0 \<le> r then \<lfloor>r\<rfloor> else \<lceil>r\<rceil>)"


section \<open>The normalizer: \<open>getSimplifiedDevices\<close>\<close>

text \<open>
  A simplified device is a Python dict from field names to values: a field that was
  never written is absent (\<open>None\<close> of the map), a field written with Python's \<open>None\<close>
  holds \<open>JNull\<close>.
\<close>

type_synonym simpleDev = "string \<rightharpoonup> json"

text \<open>A loop over a list whose body updates a state and may raise.\<close>

fun for_each :: "('a \<Rightarrow> 's \<Rightarrow> error + 's) \<Rightarrow> 'a list \<Rightarrow> 's \<Rightarrow> error + 's" where
  "for_each f [] s = Inr s"
| "for_each f (x # xs) s = bnd (f x s) (for_each f xs)"

text \<open>\<open>if src in skill: simpleDev[dst] = skill[src]\<close>\<close>

definition copy_if_present :: "string \<Rightarrow> string \<Rightarrow> json \<Rightarrow> simpleDev \<Rightarrow> error + simpleDev" where
  "copy_if_present dst src skill sd =
     bnd (contains src skill) (\<lambda>b.
       if b then bnd (getitem skill src) (\<lambda>v. Inr (sd(dst \<mapsto> v))) else Inr sd)"

text \<open>\<open>simpleDev[dst] = skill[src] if (src in skill) else None\<close>\<close>

definition copy_or_none :: "string \<Rightarrow> string \<Rightarrow> json \<Rightarrow> simpleDev \<Rightarrow> error + simpleDev" where
  "copy_or_none dst src skill sd =
     bnd (contains src skill) (\<lambda>b.
       if b then bnd (getitem skill src) (\<lambda>v. Inr (sd(dst \<mapsto> v))) else Inr (sd(dst \<mapsto> JNull)))"

text \<open>\<open>1 if c else 0\<close>\<close>

definition flag :: "bool \<Rightarrow> json" where
  "flag c = JInt (if c then 1 else 0)"

text \<open>
  The state reporting of Fritz!OS 7.51/7.56 (lines 87 to 94). The holiday flag is
  written under the key \<open>holidyActive\<close>, as the source spells it there.
\<close>

definition new_state :: "json \<Rightarrow> simpleDev \<Rightarrow> error + simpleDev" where
  "new_state skill sd =
     bnd (contains ''state'' skill) (\<lambda>b.
       if \<not> b then Inr sd
       else bnd (getitem skill ''state'') (\<lambda>state.
         bnd (contains ''current'' state) (\<lambda>c.
           if \<not> c then Inr sd
           else bnd (getitem state ''current'') (\<lambda>cur.
             Inr (sd(''summerActive'' \<mapsto> flag (cur = JStr ''SUMMER''),
                     ''holidyActive'' \<mapsto> flag (cur = JStr ''HOLIDAY''),
                     ''windowOpen'' \<mapsto> flag (cur = JStr ''WINDOW_OPEN'')))))))"

text \<open>The window flag of Fritz!OS 7.29/7.31 (lines 106 and 107).\<close>

definition old_window :: "json \<Rightarrow> simpleDev \<Rightarrow> error + simpleDev" where
  "old_window skill sd =
     bnd (contains ''temperatureDropDetection'' skill) (\<lambda>b.
       if \<not> b then Inr sd
       else bnd (getitem skill ''temperatureDropDetection'') (\<lambda>tdd.
         bnd (contains ''isWindowOpen'' tdd) (\<lambda>w.
           if \<not> w then Inr sd
           else bnd (getitem tdd ''isWindowOpen'') (\<lambda>v. Inr (sd(''windowOpen'' \<mapsto> v))))))"

text \<open>The reference temperature (lines 114 to 118).\<close>

definition ref_temp :: "json \<Rightarrow> simpleDev \<Rightarrow> error + simpleDev" where
  "ref_temp skill sd =
     bnd (contains ''usedTempSensor'' skill) (\<lambda>b.
       if \<not> b then Inr sd
       else bnd (getitem skill ''usedTempSensor'') (\<lambda>used.
         bnd (getitem used ''skills'') (\<lambda>refSkills.
           bnd (iter refSkills) (\<lambda>rs.
             for_each (copy_if_present ''refTemperatureInDegC'' ''currentInCelsius'') rs sd))))"

definition thermostat :: "json \<Rightarrow> simpleDev \<Rightarrow> error + simpleDev" where
  "thermostat skill sd =
     bnd (copy_if_present ''mode'' ''mode'' skill sd) (\<lambda>sd.
     bnd (new_state skill sd) (\<lambda>sd.
     bnd (copy_if_present ''summerActive'' ''summerActive'' skill sd) (\<lambda>sd.
     bnd (copy_if_present ''holidayActive'' ''holidayActive'' skill sd) (\<lambda>sd.
     bnd (old_window skill sd) (\<lambda>sd.
     bnd (copy_or_none ''targetTemperatureInDegC'' ''targetTemp'' skill sd) (\<lambda>sd.
     ref_temp skill sd))))))"

text \<open>\<open>if "powerPerHour" in skill: simpleDev["energyInKWH"] = float(skill["powerPerHour"]) / 1000\<close>\<close>

definition energy :: "(string \<Rightarrow> rat option) \<Rightarrow> json \<Rightarrow> simpleDev \<Rightarrow> error + simpleDev" where
  "energy fstr skill sd =
     bnd (contains ''powerPerHour'' skill) (\<lambda>b.
       if \<not> b then Inr sd
       else bnd (getitem skill ''powerPerHour'') (\<lambda>p.
         bnd (py_float fstr p) (\<lambda>x.
           Inr (sd(''energyInKWH'' \<mapsto> JFloat (float_div x 1000))))))"

definition multimeter :: "(string \<Rightarrow> rat option) \<Rightarrow> json \<Rightarrow> simpleDev \<Rightarrow> error + simpleDev" where
  "multimeter fstr skill sd =
     bnd (copy_if_present ''currentInAmp'' ''electricCurrentInAmpere'' skill sd) (\<lambda>sd.
     bnd (copy_if_present ''powerInWatt'' ''powerConsumptionInWatt'' skill sd) (\<lambda>sd.
     bnd (energy fstr skill sd) (\<lambda>sd.
     copy_if_present ''voltageInVolt'' ''voltageInVolt'' skill sd)))"

text \<open>\<open>if "state" in skill: simpleDev["powerSwitchOn"] = skill["state"] == "ON"\<close>\<close>

definition switch :: "json \<Rightarrow> simpleDev \<Rightarrow> error + simpleDev" where
  "switch skill sd =
     bnd (contains ''state'' skill) (\<lambda>b.
       if \<not> b then Inr sd
       else bnd (getitem skill ''state'') (\<lambda>st.
         Inr (sd(''powerSwitchOn'' \<mapsto> JBool (st = JStr ''ON'')))))"

text \<open>The body of the loop over the skills of a unit (lines 76 to 165).\<close>

definition normalize_skill :: "(string \<Rightarrow> rat option) \<Rightarrow> json \<Rightarrow> simpleDev \<Rightarrow> error + simpleDev" where
  "normalize_skill fstr skill sd =
     bnd (getitem skill ''type'') (\<lambda>skillType.
       if skillType = JStr ''SmartHomeThermostat'' then thermostat skill sd
       else if skillType = JStr ''SmartHomeTemperatureSensor'' then
         copy_or_none ''currentTemperatureInDegC'' ''currentInCelsius'' skill sd
       else if skillType = JStr ''SmartHomeHumiditySensor'' then
         copy_or_none ''currentHumidityInPct'' ''currentInPercent'' skill sd
       else if skillType = JStr ''SmartHomeBattery'' then
         copy_or_none ''batteryChargeLevelInPct'' ''chargeLevelInPercent'' skill sd
       else if skillType = JStr ''SmartHomeMultimeter'' then multimeter fstr skill sd
       else if skillType = JStr ''SmartHomeSocket'' then Inr sd
       else if skillType = JStr ''SmartHomeSwitch'' then switch skill sd
       else Inr sd)"

text \<open>The body of the loop over the units of a device (lines 67 to 166).\<close>

definition normalize_unit :: "(string \<Rightarrow> rat option) \<Rightarrow> json \<Rightarrow> simpleDev \<Rightarrow> error + simpleDev" where
  "normalize_unit fstr unit sd =
     bnd (getitem unit ''displayName'') (\<lambda>unitDisplayName.
     bnd (getitem unit ''skills'') (\<lambda>skills.
     bnd (getitem unit ''type'') (\<lambda>unitType.
     bnd (getitem unit ''id'') (\<lambda>unitID.
     bnd (iter skills) (\<lambda>ss. for_each (normalize_skill fstr) ss sd)))))"

text \<open>
  The body of the loop over the devices, up to the store into the result (lines 49 to
  167): the device's id and its simplified record.
\<close>

definition normalize_device :: "(string \<Rightarrow> rat option) \<Rightarrow> json \<Rightarrow> error + json \<times> simpleDev" where
  "normalize_device fstr device =
     bnd (getitem device ''displayName'') (\<lambda>devDisplayName.
     bnd (getitem device ''category'') (\<lambda>category.
     bnd (getitem device ''type'') (\<lambda>deviceType.
     bnd (getitem device ''units'') (\<lambda>units.
     bnd (getitem device ''masterConnectionState'') (\<lambda>connected.
     bnd (getitem device ''id'') (\<lambda>devID.
     bnd (getitem device ''model'') (\<lambda>model.
     bnd (getitem device ''actorIdentificationNumber'') (\<lambda>identifier.
     bnd (iter units) (\<lambda>us.
     bnd (for_each (normalize_unit fstr) us
            [''id'' \<mapsto> devID,
             ''displayName'' \<mapsto> devDisplayName,
             ''present'' \<mapsto> JBool (connected = JStr ''CONNECTED''),
             ''model'' \<mapsto> model,
             ''identifier'' \<mapsto> identifier])
         (\<lambda>simpleDev. Inr (devID, simpleDev)))))))))))"

subsection \<open>The result dict\<close>

text \<open>
  \<open>simplifiedDevices\<close> is a dict keyed by the device ids, kept as the list of its items in
  insertion order. A list or a dict cannot be a key (TypeError: unhashable). Python
  takes two keys for the same when they are equal, and numbers are equal by value
  across \<open>bool\<close>, \<open>int\<close> and \<open>float\<close>. A store under a key the dict has keeps the key's
  place (and the key object) and replaces the value.
\<close>

fun hashable :: "json \<Rightarrow> bool" where
  "hashable (JArr xs) = False"
| "hashable (JObj kvs) = False"
| "hashable _ = True"

fun num_of :: "json \<Rightarrow> rat option" where
  "num_of (JBool b) = Some (if b then 1 else 0)"
| "num_of (JInt i) = Some (of_int i)"
| "num_of (JFloat r) = Some r"
| "num_of _ = None"

definition key_eq :: "json \<Rightarrow> json \<Rightarrow> bool" where
  "key_eq a b = (case (num_of a, num_of b) of
       (Some x, Some y) \<Rightarrow> x = y
     | (None, None) \<Rightarrow> a = b
     | _ \<Rightarrow> False)"

fun dict_set :: "(json \<times> 'v) list \<Rightarrow> json \<Rightarrow> 'v \<Rightarrow> (json \<times> 'v) list" where
  "dict_set [] k v = [(k, v)]"
| "dict_set ((k', v') # kvs) k v =
     (if key_eq k' k then (k', v) # kvs else (k', v') # dict_set kvs k v)"

fun dict_get :: "(json \<times> 'v) list \<Rightarrow> json \<Rightarrow> 'v option" where
  "dict_get [] k = None"
| "dict_get ((k', v') # kvs) k = (if key_eq k' k then Some v' else dict_get kvs k)"

text \<open>\<open>simplifiedDevices[devID] = simpleDev\<close> (line 170)\<close>

definition store_device ::
  "(string \<Rightarrow> rat option) \<Rightarrow> json \<Rightarrow> (json \<times> simpleDev) list \<Rightarrow> error + (json \<times> simpleDev) list" where
  "store_device fstr device simplifiedDevices =
     bnd (normalize_device fstr device) (\<lambda>(devID, simpleDev).
       if hashable devID then Inr (dict_set simplifiedDevices devID simpleDev)
       else Inl TypeError)"

text \<open>
  \<open>getSimplifiedDevices\<close>, from the answer \<open>data\<close> of the router (line 40, the session and
  transport being outside this program) to the dict of the simplified devices. The
  \<open>debug\<close> tracing is left out: it prints and changes no value.
\<close>

definition getSimplifiedDevices ::
  "(string \<Rightarrow> rat option) \<Rightarrow> json \<Rightarrow> error + (json \<times> simpleDev) list" where
  "getSimplifiedDevices fstr data =
     bnd (getitem data ''data'') (\<lambda>d.
     bnd (getitem d ''devices'') (\<lambda>devices.
     bnd (iter devices) (\<lambda>ds. for_each (store_device fstr) ds [])))"


section \<open>The sorter: \<open>getDevices\<close>\<close>

text \<open>\<open>dev[key]\<close> on a simplified device.\<close>

definition field :: "simpleDev \<Rightarrow> string \<Rightarrow> error + json" where
  "field dev k = (case dev k of None \<Rightarrow> Inl KeyError | Some v \<Rightarrow> Inr v)"

text \<open>
  \<open>a == b\<close> and \<open>a < b\<close> on Python values. Strings are ordered by their characters,
  numbers by value, lists by their first unequal elements; a dict, \<open>None\<close> and values of
  different kinds are not ordered (TypeError).
\<close>

fun py_eq :: "json \<Rightarrow> json \<Rightarrow> bool" where
  "py_eq (JArr xs) (JArr ys) = list_all2 py_eq xs ys"
| "py_eq (JObj a) (JObj b) =
     (set (map fst a) = set (map fst b) \<and>
      list_all (\<lambda>kv. if map_of a (fst kv) = Some (snd kv)
                      then (case map_of b (fst kv) of None \<Rightarrow> False | Some w \<Rightarrow> py_eq (snd kv) w)
                      else True) a)"
| "py_eq a b = key_eq a b"

fun py_lt :: "json \<Rightarrow> json \<Rightarrow> error + bool" where
  "py_lt (JStr a) (JStr b) = Inr (a < b)"
| "py_lt (JArr []) (JArr ys) = Inr (ys \<noteq> [])"
| "py_lt (JArr (x # xs)) (JArr []) = Inr False"
| "py_lt (JArr (x # xs)) (JArr (y # ys)) =
     (if py_eq x y then py_lt (JArr xs) (JArr ys) else py_lt x y)"
| "py_lt a b = (case (num_of a, num_of b) of
                  (Some x, Some y) \<Rightarrow> Inr (x < y)
                | _ \<Rightarrow> Inl TypeError)"

text \<open>
  \<open>sorted(values, key = ...)\<close> computes the key of every element, then sorts by the keys
  with \<open><\<close> alone, and is stable. The model is the stable insertion sort: an element
  goes before the first element that is not smaller than it. Where the keys are totally
  ordered, as strings are, every stable sort gives this list.
\<close>

fun keyed :: "simpleDev list \<Rightarrow> error + (json \<times> simpleDev) list" where
  "keyed [] = Inr []"
| "keyed (x # xs) =
     bnd (field x ''displayName'') (\<lambda>k. bnd (keyed xs) (\<lambda>r. Inr ((k, x) # r)))"

fun insert_by :: "json \<times> 'a \<Rightarrow> (json \<times> 'a) list \<Rightarrow> error + (json \<times> 'a) list" where
  "insert_by x [] = Inr [x]"
| "insert_by x (y # ys) =
     bnd (py_lt (fst y) (fst x)) (\<lambda>b.
       if b then bnd (insert_by x ys) (\<lambda>r. Inr (y # r)) else Inr (x # y # ys))"

fun sort_by :: "(json \<times> 'a) list \<Rightarrow> error + (json \<times> 'a) list" where
  "sort_by [] = Inr []"
| "sort_by (x # xs) = bnd (sort_by xs) (insert_by x)"

definition py_sorted :: "simpleDev list \<Rightarrow> error + simpleDev list" where
  "py_sorted devs = bnd (keyed devs) (\<lambda>ks. bnd (sort_by ks) (\<lambda>r. Inr (map snd r)))"

definition getDevices :: "(string \<Rightarrow> rat option) \<Rightarrow> json \<Rightarrow> error + simpleDev list" where
  "getDevices fstr data =
     bnd (getSimplifiedDevices fstr data) (\<lambda>simpleDevicesDict.
       py_sorted (map snd simpleDevicesDict))"

section \<open>The output\<close>

text \<open>
  The emitters print. The output is kept as the list of the \<open>print\<close> calls, each as the
  pieces of its text: fixed text (\<open>S\<close>), a value put in by \<open>{}\<close> (\<open>V\<close>) and an integer put
  in by \<open>{:15}\<close> (\<open>I15\<close>). The calls that the protocol gives a meaning are told apart:
  \<open>Multigraph n\<close> is \<open>print("multigraph n")\<close>, \<open>MultigraphDev n i\<close> is
  \<open>print("multigraph n{}".format(i))\<close>, \<open>DevLine m i r\<close> is the line of the metric
  \<open>m{}\<close> of the device \<open>i\<close>, with the rest \<open>r\<close> of the line, and \<open>Text\<close> is any other
  call. \<open>render\<close> gives the pieces of the text of a call back.
\<close>

datatype frag = S string | V json | I15 int

datatype out =
    Multigraph string
  | MultigraphDev string json
  | DevLine string json "frag list"
  | Text "frag list"

fun render :: "out \<Rightarrow> frag list" where
  "render (Multigraph n) = [S ''multigraph '', S n]"
| "render (MultigraphDev n i) = [S ''multigraph '', S n, V i]"
| "render (DevLine m i r) = S m # V i # r"
| "render (Text r) = r"

text \<open>\<open>print("")\<close> and \<open>print("\n")\<close>\<close>

definition blank :: out where
  "blank = Text []"

definition blank2 :: out where
  "blank2 = Text [S [CHR 0x0A]]"

text \<open>
  An emitter may raise after it has printed: its result is what it has printed and the
  exception that stopped it, if one did.
\<close>

type_synonym emit = "out list \<times> error option"

definition say :: "out list \<Rightarrow> emit" where
  "say ls = (ls, None)"

definition emit_seq :: "emit \<Rightarrow> emit \<Rightarrow> emit" where
  "emit_seq a b = (case snd a of None \<Rightarrow> (fst a @ fst b, snd b) | Some e \<Rightarrow> a)"

definition emit_get :: "error + 'a \<Rightarrow> ('a \<Rightarrow> emit) \<Rightarrow> emit" where
  "emit_get m k = (case m of Inl e \<Rightarrow> ([], Some e) | Inr v \<Rightarrow> k v)"

fun emit_all :: "emit list \<Rightarrow> emit" where
  "emit_all [] = ([], None)"
| "emit_all (e # es) = emit_seq e (emit_all es)"

definition emit_for :: "('a \<Rightarrow> emit) \<Rightarrow> 'a list \<Rightarrow> emit" where
  "emit_for f xs = emit_all (map f xs)"

text \<open>
  \<open>int(v)\<close>. What \<open>int\<close> makes of a string is Python's own parser, the parameter \<open>istr\<close>
  (\<open>None\<close>: ValueError).
\<close>

fun py_int :: "(string \<Rightarrow> int option) \<Rightarrow> json \<Rightarrow> error + int" where
  "py_int istr (JBool b) = Inr (if b then 1 else 0)"
| "py_int istr (JInt i) = Inr i"
| "py_int istr (JFloat r) = Inr (trunc r)"
| "py_int istr (JStr s) = (case istr s of None \<Rightarrow> Inl ValueError | Some i \<Rightarrow> Inr i)"
| "py_int istr _ = Inl TypeError"

text \<open>
  \<open>int(v * 3600000)\<close>: the product of a float is rounded, and an infinity cannot be
  converted (OverflowError); the product of an int is exact; a string is repeated.
\<close>

fun joule :: "(string \<Rightarrow> int option) \<Rightarrow> json \<Rightarrow> error + int" where
  "joule istr (JFloat r) =
     (case float_mul r 3600000 of None \<Rightarrow> Inl OverflowError | Some x \<Rightarrow> Inr (trunc x))"
| "joule istr (JInt i) = Inr (i * 3600000)"
| "joule istr (JBool b) = Inr (if b then 3600000 else 0)"
| "joule istr (JStr s) = py_int istr (JStr (concat (replicate 3600000 s)))"
| "joule istr _ = Inl TypeError"


section \<open>The metric emitter: \<open>print_smart_home_measurements\<close>\<close>

text \<open>
  \<open>if dev["present"] and fld in dev: print("m{}.value {}".format(dev["id"], dev[fld]))\<close>,
  the body of the loops of the groups that print a field as it is.
\<close>

definition value_line :: "string \<Rightarrow> string \<Rightarrow> simpleDev \<Rightarrow> emit" where
  "value_line m fld dev =
     emit_get (field dev ''present'') (\<lambda>p.
       if truthy p \<and> dev fld \<noteq> None then
         emit_get (field dev ''id'') (\<lambda>i.
         emit_get (field dev fld) (\<lambda>v. say [DevLine m i [S ''.value '', V v]]))
       else say [])"

text \<open>\<open>print("m{}.value {}".format(dev["id"], dev[fld]))\<close>\<close>

definition print_value :: "string \<Rightarrow> string \<Rightarrow> simpleDev \<Rightarrow> emit" where
  "print_value m fld dev =
     emit_get (field dev ''id'') (\<lambda>i.
     emit_get (field dev fld) (\<lambda>v. say [DevLine m i [S ''.value '', V v]]))"

text \<open>\<open>print("m{}.value {}".format(dev["id"], int(dev[fld])))\<close>\<close>

definition print_int_value :: "(string \<Rightarrow> int option) \<Rightarrow> string \<Rightarrow> string \<Rightarrow> simpleDev \<Rightarrow> emit" where
  "print_int_value istr m fld dev =
     emit_get (field dev ''id'') (\<lambda>i.
     emit_get (field dev fld) (\<lambda>v.
     emit_get (py_int istr v) (\<lambda>n. say [DevLine m i [S ''.value '', V (JInt n)]])))"

text \<open>\<open>fld in dev and dev[fld] is not None\<close>\<close>

definition has_value :: "simpleDev \<Rightarrow> string \<Rightarrow> bool" where
  "has_value dev fld = (dev fld \<noteq> None \<and> dev fld \<noteq> Some JNull)"

definition only_if :: "bool \<Rightarrow> emit \<Rightarrow> emit" where
  "only_if c e = (if c then e else say [])"

text \<open>Lines 190 to 195.\<close>

definition m_temperatures :: "simpleDev list \<Rightarrow> emit" where
  "m_temperatures simpleDevices =
     emit_seq (say [Multigraph ''temperatures''])
       (emit_for (value_line ''t'' ''currentTemperatureInDegC'') simpleDevices)"

text \<open>Lines 198 to 203.\<close>

definition m_humidity :: "simpleDev list \<Rightarrow> emit" where
  "m_humidity simpleDevices =
     emit_seq (say [blank, Multigraph ''humidity''])
       (emit_for (value_line ''humidity'' ''currentHumidityInPct'') simpleDevices)"

text \<open>Lines 208 to 214.\<close>

definition m_target :: "simpleDev list \<Rightarrow> emit" where
  "m_target simpleDevices =
     emit_seq (say [blank2, Multigraph ''temperatures_target''])
       (emit_for (\<lambda>dev.
          emit_get (field dev ''present'') (\<lambda>p.
            only_if (truthy p \<and> has_value dev ''targetTemperatureInDegC'')
              (print_value ''tsoll'' ''targetTemperatureInDegC'' dev)))
        simpleDevices)"

text \<open>Lines 216 to 230: the block of one device, and the loop.\<close>

definition m_detail_dev :: "simpleDev \<Rightarrow> emit" where
  "m_detail_dev dev =
     emit_get (field dev ''present'') (\<lambda>p.
       only_if (truthy p)
         (emit_all
           [say [blank],
            emit_get (field dev ''id'') (\<lambda>i. say [MultigraphDev ''temperatures.t'' i]),
            only_if (dev ''refTemperatureInDegC'' \<noteq> None)
              (print_value ''tref'' ''refTemperatureInDegC'' dev),
            only_if (dev ''currentTemperatureInDegC'' \<noteq> None)
              (print_value ''t'' ''currentTemperatureInDegC'' dev),
            only_if (has_value dev ''targetTemperatureInDegC'')
              (print_value ''tsoll'' ''targetTemperatureInDegC'' dev)]))"

definition m_detail :: "simpleDev list \<Rightarrow> emit" where
  "m_detail simpleDevices = emit_for m_detail_dev simpleDevices"

text \<open>Lines 234 to 240.\<close>

definition m_modes :: "(string \<Rightarrow> int option) \<Rightarrow> simpleDev list \<Rightarrow> emit" where
  "m_modes istr simpleDevices =
     emit_seq (say [blank2, Multigraph ''thermostat_modes''])
       (emit_for (\<lambda>dev.
          emit_get (field dev ''present'') (\<lambda>p.
            only_if (truthy p \<and> dev ''windowOpen'' \<noteq> None)
              (print_int_value istr ''windowopenmode'' ''windowOpen'' dev)))
        simpleDevices)"

text \<open>Lines 243 to 257: the block of one device, and the loop. It does not look at \<open>present\<close>.\<close>

definition m_modes_detail_dev :: "(string \<Rightarrow> int option) \<Rightarrow> simpleDev \<Rightarrow> emit" where
  "m_modes_detail_dev istr dev =
     only_if (dev ''windowOpen'' \<noteq> None \<or> dev ''summerActive'' \<noteq> None \<or> dev ''holidayActive'' \<noteq> None)
       (emit_all
         [say [blank2],
          emit_get (field dev ''id'') (\<lambda>i. say [MultigraphDev ''thermostat_modes.id'' i]),
          only_if (dev ''windowOpen'' \<noteq> None)
            (print_int_value istr ''windowopenmode'' ''windowOpen'' dev),
          only_if (dev ''summerActive'' \<noteq> None)
            (print_int_value istr ''summermode'' ''summerActive'' dev),
          only_if (dev ''holidayActive'' \<noteq> None)
            (print_int_value istr ''holidaymode'' ''holidayActive'' dev)])"

definition m_modes_detail :: "(string \<Rightarrow> int option) \<Rightarrow> simpleDev list \<Rightarrow> emit" where
  "m_modes_detail istr simpleDevices = emit_for (m_modes_detail_dev istr) simpleDevices"

text \<open>Lines 260 to 265.\<close>

definition m_battery :: "simpleDev list \<Rightarrow> emit" where
  "m_battery simpleDevices =
     emit_seq (say [blank, Multigraph ''battery''])
       (emit_for (value_line ''battery'' ''batteryChargeLevelInPct'') simpleDevices)"

text \<open>Lines 270 to 275.\<close>

definition m_batterylow :: "simpleDev list \<Rightarrow> emit" where
  "m_batterylow simpleDevices =
     emit_seq (say [blank, Multigraph ''batterylow''])
       (emit_for (value_line ''batterylow'' ''batteryLow'') simpleDevices)"

text \<open>Lines 279 to 284.\<close>

definition m_voltage :: "simpleDev list \<Rightarrow> emit" where
  "m_voltage simpleDevices =
     emit_seq (say [blank, Multigraph ''voltage''])
       (emit_for (value_line ''voltage'' ''voltageInVolt'') simpleDevices)"

text \<open>Lines 288 to 293.\<close>

definition m_power :: "simpleDev list \<Rightarrow> emit" where
  "m_power simpleDevices =
     emit_seq (say [blank, Multigraph ''smarthome_power''])
       (emit_for (value_line ''smarthome_power'' ''powerInWatt'') simpleDevices)"

text \<open>
  Lines 296 to 305: \<open>energyInJoule = int(dev["energyInKWH"] * 3600000)\<close>, then
  \<open>devID = dev["id"]\<close>, then the line with the number in a field of width 15.
\<close>

definition m_powerAvg_dev :: "(string \<Rightarrow> int option) \<Rightarrow> simpleDev \<Rightarrow> emit" where
  "m_powerAvg_dev istr dev =
     emit_get (field dev ''present'') (\<lambda>p.
       only_if (truthy p \<and> dev ''energyInKWH'' \<noteq> None)
         (emit_get (field dev ''energyInKWH'') (\<lambda>e.
          emit_get (joule istr e) (\<lambda>energyInJoule.
          emit_get (field dev ''id'') (\<lambda>devID.
            say [DevLine ''smarthome_powerAvg'' devID [S ''.value '', I15 energyInJoule]])))))"

definition m_powerAvg :: "(string \<Rightarrow> int option) \<Rightarrow> simpleDev list \<Rightarrow> emit" where
  "m_powerAvg istr simpleDevices =
     emit_seq (say [blank, Multigraph ''smarthome_powerAvg''])
       (emit_for (m_powerAvg_dev istr) simpleDevices)"

text \<open>Lines 308 to 313.\<close>

definition m_energy :: "simpleDev list \<Rightarrow> emit" where
  "m_energy simpleDevices =
     emit_seq (say [blank, Multigraph ''energy''])
       (emit_for (value_line ''energy'' ''energyInKWH'') simpleDevices)"

text \<open>Lines 315 to 320.\<close>

definition m_powerswitch :: "(string \<Rightarrow> int option) \<Rightarrow> simpleDev list \<Rightarrow> emit" where
  "m_powerswitch istr simpleDevices =
     emit_seq (say [blank, Multigraph ''smarthome_powerswitch''])
       (emit_for (\<lambda>dev.
          emit_get (field dev ''present'') (\<lambda>p.
            only_if (truthy p \<and> dev ''powerSwitchOn'' \<noteq> None)
              (print_int_value istr ''smarthome_powerswitch'' ''powerSwitchOn'' dev)))
        simpleDevices)"

definition print_smart_home_measurements :: "(string \<Rightarrow> int option) \<Rightarrow> simpleDev list \<Rightarrow> emit" where
  "print_smart_home_measurements istr simpleDevices =
     emit_all
       [m_temperatures simpleDevices,
        m_humidity simpleDevices,
        m_target simpleDevices,
        m_detail simpleDevices,
        m_modes istr simpleDevices,
        m_modes_detail istr simpleDevices,
        m_battery simpleDevices,
        m_batterylow simpleDevices,
        m_voltage simpleDevices,
        m_power simpleDevices,
        m_powerAvg istr simpleDevices,
        m_energy simpleDevices,
        m_powerswitch istr simpleDevices]"


section \<open>The metadata emitter: \<open>print_config\<close>\<close>

text \<open>\<open>print(s)\<close> of a fixed text.\<close>

definition plain :: "string \<Rightarrow> out" where
  "plain s = Text [S s]"

text \<open>\<open>print("m{}attr".format(dev["id"]))\<close>\<close>

definition print_attr :: "string \<Rightarrow> string \<Rightarrow> simpleDev \<Rightarrow> emit" where
  "print_attr m attr dev =
     emit_get (field dev ''id'') (\<lambda>i. say [DevLine m i [S attr]])"

text \<open>\<open>print("m{}.label {}".format(dev["id"], dev["displayName"]))\<close>\<close>

definition print_label :: "string \<Rightarrow> simpleDev \<Rightarrow> emit" where
  "print_label m dev =
     emit_get (field dev ''id'') (\<lambda>i.
     emit_get (field dev ''displayName'') (\<lambda>n. say [DevLine m i [S ''.label '', V n]]))"

text \<open>\<open>print("m{}.info what [{} - {}]".format(dev["id"], dev["model"], dev["identifier"]))\<close>\<close>

definition print_info :: "string \<Rightarrow> string \<Rightarrow> simpleDev \<Rightarrow> emit" where
  "print_info m what dev =
     emit_get (field dev ''id'') (\<lambda>i.
     emit_get (field dev ''model'') (\<lambda>model.
     emit_get (field dev ''identifier'') (\<lambda>ident.
       say [DevLine m i [S (''.info '' @ what @ '' [''), V model, S '' - '', V ident, S '']'']])))"

text \<open>Lines 336 to 349. The loop does not look at \<open>present\<close>.\<close>

definition c_temperatures :: "simpleDev list \<Rightarrow> emit" where
  "c_temperatures simpleDevices =
     emit_seq
       (say [Multigraph ''temperatures'',
         plain ''graph_title AVM Fritz!Box SmartHome Temperatures (locally measured)'',
         plain ''graph_vlabel degrees Celsius'',
         plain ''graph_category smart home'',
         plain ''graph_scale no'',
         blank])
       (emit_for (\<lambda>dev.
          only_if (dev ''currentTemperatureInDegC'' \<noteq> None)
            (emit_all
              [print_label ''t'' dev,
               print_attr ''t'' ''.type GAUGE'' dev,
               print_attr ''t'' ''.graph LINE'' dev,
               print_info ''t'' ''Locally measured temperature'' dev]))
        simpleDevices)"

text \<open>Lines 352 to 370.\<close>

definition c_humidity :: "simpleDev list \<Rightarrow> emit" where
  "c_humidity simpleDevices =
     emit_seq
       (say [blank2,
         Multigraph ''humidity'',
         plain ''graph_title AVM Fritz!Box SmartHome Humidity'',
         plain ''graph_vlabel percent'',
         plain ''graph_category smart home'',
         plain ''graph_scale no'',
         blank2])
       (emit_for (\<lambda>dev.
          emit_get (field dev ''present'') (\<lambda>p.
            only_if (truthy p \<and> dev ''currentHumidityInPct'' \<noteq> None)
              (emit_all
                [print_label ''humidity'' dev,
                 print_attr ''humidity'' ''.type GAUGE'' dev,
                 print_attr ''humidity'' ''.graph LINE'' dev,
                 print_attr ''humidity'' ''.max 100'' dev,
                 print_attr ''humidity'' ''.min   0'' dev,
                 print_attr ''humidity'' ''.warning 30:70'' dev,
                 print_attr ''humidity'' ''.critical 20:75'' dev,
                 print_info ''humidity'' ''Humidity'' dev])))
        simpleDevices)"

text \<open>Lines 375 to 389. The loop looks neither at \<open>present\<close> nor at the value.\<close>

definition c_target :: "simpleDev list \<Rightarrow> emit" where
  "c_target simpleDevices =
     emit_seq
       (say [blank2,
         Multigraph ''temperatures_target'',
         plain ''graph_title AVM Fritz!Box SmartHome Target Temperatures'',
         plain ''graph_vlabel degrees Celsius'',
         plain ''graph_category smart home'',
         plain ''graph_scale no'',
         blank])
       (emit_for (\<lambda>dev.
          only_if (dev ''targetTemperatureInDegC'' \<noteq> None)
            (emit_all
              [print_label ''tsoll'' dev,
               print_attr ''tsoll'' ''.type GAUGE'' dev,
               print_attr ''tsoll'' ''.graph LINE'' dev,
               print_info ''tsoll'' ''Target temperature'' dev]))
        simpleDevices)"

text \<open>Lines 392 to 419: the block of one device, printed for every device, and the loop.\<close>

definition c_detail_dev :: "simpleDev \<Rightarrow> emit" where
  "c_detail_dev dev =
     emit_all
       [say [blank2],
        emit_get (field dev ''id'') (\<lambda>i. say [MultigraphDev ''temperatures.t'' i]),
        emit_get (field dev ''displayName'') (\<lambda>n.
          say [Text [S ''graph_title Temperatures for '', V n]]),
        say [plain ''graph_vlabel degrees Celsius'',
             plain ''graph_category smart home'',
             plain ''graph_scale no'',
             blank2],
        only_if (dev ''currentTemperatureInDegC'' \<noteq> None)
          (emit_all
            [print_attr ''t'' ''.label measured locally'' dev,
             print_attr ''t'' ''.type GAUGE'' dev,
             print_attr ''t'' ''.graph LINE'' dev,
             print_attr ''t'' ''.warning 15:30'' dev,
             print_attr ''t'' ''.critical 10:35'' dev,
             print_info ''t'' ''Locally measured temperature'' dev]),
        only_if (dev ''refTemperatureInDegC'' \<noteq> None)
          (emit_all
            [print_attr ''tref'' ''.label measured ref.'' dev,
             print_attr ''tref'' ''.type GAUGE'' dev,
             print_attr ''tref'' ''.graph LINE'' dev,
             print_info ''tref'' ''Measured reference temperature'' dev]),
        only_if (dev ''targetTemperatureInDegC'' \<noteq> None)
          (emit_all
            [print_attr ''tsoll'' ''.label target'' dev,
             print_attr ''tsoll'' ''.type GAUGE'' dev,
             print_attr ''tsoll'' ''.graph LINE'' dev,
             print_info ''tsoll'' ''Target temperature'' dev])]"

definition c_detail :: "simpleDev list \<Rightarrow> emit" where
  "c_detail simpleDevices = emit_for c_detail_dev simpleDevices"

text \<open>Lines 422 to 438.\<close>

definition c_modes :: "simpleDev list \<Rightarrow> emit" where
  "c_modes simpleDevices =
     emit_seq
       (say [blank2,
         Multigraph ''thermostat_modes'',
         plain ''graph_title AVM Fritz!Box SmartHome Thermostat Modes'',
         plain ''graph_vlabel on/off'',
         plain ''graph_category smart home'',
         plain ''graph_scale no'',
         blank2])
       (emit_for (\<lambda>dev.
          emit_get (field dev ''present'') (\<lambda>p.
            only_if (truthy p \<and> dev ''windowOpen'' \<noteq> None)
              (emit_all
                [print_label ''windowopenmode'' dev,
                 print_attr ''windowopenmode'' ''.type GAUGE'' dev,
                 print_attr ''windowopenmode'' ''.graph LINE'' dev,
                 print_attr ''windowopenmode'' ''.max   1'' dev,
                 print_attr ''windowopenmode'' ''.min   0'' dev,
                 print_info ''windowopenmode'' ''Window Open Mode'' dev])))
        simpleDevices)"

text \<open>Lines 441 to 475: the block of one device, and the loop. It does not look at \<open>present\<close>.\<close>

definition c_modes_detail_dev :: "simpleDev \<Rightarrow> emit" where
  "c_modes_detail_dev dev =
     only_if (dev ''windowOpen'' \<noteq> None \<or> dev ''summerActive'' \<noteq> None \<or> dev ''holidayActive'' \<noteq> None)
       (emit_all
         [say [blank2],
          emit_get (field dev ''id'') (\<lambda>i. say [MultigraphDev ''thermostat_modes.id'' i]),
          emit_get (field dev ''displayName'') (\<lambda>n.
            say [Text [S ''graph_title AVM Fritz!Box SmartHome Modes for '', V n]]),
          say [plain ''graph_vlabel on/off'',
               plain ''graph_category smart home'',
               plain ''graph_scale no'',
               blank2],
          only_if (dev ''windowOpen'' \<noteq> None)
            (emit_all
              [print_attr ''windowopenmode'' ''.label Window Open'' dev,
               print_attr ''windowopenmode'' ''.type  GAUGE'' dev,
               print_attr ''windowopenmode'' ''.graph LINE'' dev,
               print_attr ''windowopenmode'' ''.max   1'' dev,
               print_attr ''windowopenmode'' ''.min   0'' dev,
               print_info ''windowopenmode'' ''Window Open Mode'' dev]),
          only_if (dev ''summerActive'' \<noteq> None)
            (emit_all
              [print_attr ''summermode'' ''.label Summer Mode'' dev,
               print_attr ''summermode'' ''.type  GAUGE'' dev,
               print_attr ''summermode'' ''.graph LINE'' dev,
               print_attr ''summermode'' ''.max   1'' dev,
               print_attr ''summermode'' ''.min   0'' dev,
               print_info ''summermode'' ''Summer Mode'' dev]),
          only_if (dev ''holidayActive'' \<noteq> None)
            (emit_all
              [print_attr ''holidaymode'' ''.label Holiday Mode'' dev,
               print_attr ''holidaymode'' ''.type  GAUGE'' dev,
               print_attr ''holidaymode'' ''.graph LINE'' dev,
               print_attr ''holidaymode'' ''.max   1'' dev,
               print_attr ''holidaymode'' ''.min   0'' dev,
               print_info ''holidaymode'' ''Holiday Mode'' dev])])"

definition c_modes_detail :: "simpleDev list \<Rightarrow> emit" where
  "c_modes_detail simpleDevices = emit_for c_modes_detail_dev simpleDevices"

text \<open>Lines 480 to 498.\<close>

definition c_battery :: "simpleDev list \<Rightarrow> emit" where
  "c_battery simpleDevices =
     emit_seq
       (say [blank2,
         Multigraph ''battery'',
         plain ''graph_title AVM Fritz!Box SmartHome Battery'',
         plain ''graph_vlabel percent'',
         plain ''graph_category smart home'',
         plain ''graph_scale no'',
         blank2])
       (emit_for (\<lambda>dev.
          emit_get (field dev ''present'') (\<lambda>p.
            only_if (truthy p \<and> dev ''batteryChargeLevelInPct'' \<noteq> None)
              (emit_all
                [print_label ''battery'' dev,
                 print_attr ''battery'' ''.type GAUGE'' dev,
                 print_attr ''battery'' ''.graph LINE'' dev,
                 print_attr ''battery'' ''.max 100'' dev,
                 print_attr ''battery'' ''.min   0'' dev,
                 print_attr ''battery'' ''.warning 30:110'' dev,
                 print_attr ''battery'' ''.critical 10:120'' dev,
                 print_info ''battery'' ''Battery'' dev])))
        simpleDevices)"

text \<open>Lines 502 to 519.\<close>

definition c_batterylow :: "simpleDev list \<Rightarrow> emit" where
  "c_batterylow simpleDevices =
     emit_seq
       (say [blank2,
         Multigraph ''batterylow'',
         plain ''graph_title AVM Fritz!Box SmartHome Battery Low Warning'',
         plain ''graph_vlabel ok/warning'',
         plain ''graph_category smart home'',
         plain ''graph_scale no'',
         blank2])
       (emit_for (\<lambda>dev.
          emit_get (field dev ''present'') (\<lambda>p.
            only_if (truthy p \<and> dev ''batteryLow'' \<noteq> None)
              (emit_all
                [print_label ''batterylow'' dev,
                 print_attr ''batterylow'' ''.type GAUGE'' dev,
                 print_attr ''batterylow'' ''.graph LINE'' dev,
                 print_attr ''batterylow'' ''.max   1'' dev,
                 print_attr ''batterylow'' ''.min   0'' dev,
                 print_attr ''batterylow'' ''.warning  0.5'' dev,
                 print_attr ''batterylow'' ''.critical 1'' dev,
                 print_info ''batterylow'' ''Battery Low Warning'' dev])))
        simpleDevices)"

text \<open>Lines 522 to 538.\<close>

definition c_voltage :: "simpleDev list \<Rightarrow> emit" where
  "c_voltage simpleDevices =
     emit_seq
       (say [blank2,
         Multigraph ''voltage'',
         plain ''graph_title AVM Fritz!Box SmartHome Voltage'',
         plain ''graph_vlabel Volt'',
         plain ''graph_category smart home'',
         plain ''graph_scale no'',
         blank2])
       (emit_for (\<lambda>dev.
          emit_get (field dev ''present'') (\<lambda>p.
            only_if (truthy p \<and> dev ''voltageInVolt'' \<noteq> None)
              (emit_all
                [print_label ''voltage'' dev,
                 print_attr ''voltage'' ''.type GAUGE'' dev,
                 print_attr ''voltage'' ''.graph LINE'' dev,
                 print_attr ''voltage'' ''.min     0'' dev,
                 print_attr ''voltage'' ''.warning  220:240'' dev,
                 print_attr ''voltage'' ''.critical 210:245'' dev,
                 print_info ''voltage'' ''Voltage'' dev])))
        simpleDevices)"

text \<open>
  \<open>[f'm{dev["id"]}' for dev in simpleDevices if (dev["present"] and fld in dev)]\<close>, the
  names of the metrics a total sums, and \<open>sep.join(...)\<close> of such a list.
\<close>

fun id_list :: "string \<Rightarrow> string \<Rightarrow> simpleDev list \<Rightarrow> error + frag list list" where
  "id_list m fld [] = Inr []"
| "id_list m fld (dev # devs) =
     bnd (field dev ''present'') (\<lambda>p.
       if truthy p \<and> dev fld \<noteq> None then
         bnd (field dev ''id'') (\<lambda>i. bnd (id_list m fld devs) (\<lambda>r. Inr ([S m, V i] # r)))
       else id_list m fld devs)"

fun join :: "frag list \<Rightarrow> frag list list \<Rightarrow> frag list" where
  "join sep [] = []"
| "join sep [x] = x"
| "join sep (x # y # r) = x @ sep @ join sep (y # r)"

text \<open>
  The three groups with a total (lines 542 to 569, 573 to 595 and 598 to 620) differ in
  the names and in the lines of a device: \<open>total_group m title vlabel fld attrs what\<close>.
  \<open>",ADDNAN" * (len(ids) - 1)\<close> is the empty string for an empty list.
\<close>

definition total_group ::
  "string \<Rightarrow> string \<Rightarrow> string \<Rightarrow> string \<Rightarrow> string list \<Rightarrow> string \<Rightarrow> simpleDev list \<Rightarrow> emit" where
  "total_group m title vlabel fld attrs what simpleDevices =
     emit_all
       [say [blank2,
             Multigraph m,
             plain (''graph_title '' @ title),
             plain (''graph_vlabel '' @ vlabel),
             plain ''graph_category smart home'',
             plain ''graph_scale no''],
        emit_get (id_list m fld simpleDevices) (\<lambda>ids.
          emit_all
            [say [Text (S (''graph_order total_'' @ m @ '' '') # join [S '' ''] ids),
                  blank2],
             emit_for (\<lambda>dev.
               emit_get (field dev ''present'') (\<lambda>p.
                 only_if (truthy p \<and> dev fld \<noteq> None)
                   (emit_all
                     (print_label m dev
                      # map (\<lambda>a. print_attr m a dev) attrs
                      @ [print_info m what dev]))))
               simpleDevices,
             say [plain (''total_'' @ m @ ''.label       total''),
                  Text (S (''total_'' @ m @ ''.cdef        '') # join [S '',''] ids
                        @ concat (replicate (length ids - 1) [S '',ADDNAN''])),
                  plain (''total_'' @ m @ ''.min         0'')]])]"

definition c_power :: "simpleDev list \<Rightarrow> emit" where
  "c_power = total_group ''smarthome_power'' ''AVM Fritz!Box SmartHome Power'' ''Watt''
     ''powerInWatt''
     [''.type GAUGE'', ''.graph LINE'', ''.min      0'', ''.warning  1500'', ''.critical 2000'']
     ''Power''"

definition c_powerAvg :: "simpleDev list \<Rightarrow> emit" where
  "c_powerAvg = total_group ''smarthome_powerAvg''
     ''AVM Fritz!Box SmartHome Power Average (from Energy)'' ''W''
     ''energyInKWH''
     [''.type DERIVE'', ''.graph LINE'', ''.min   0'']
     ''Power Average''"

definition c_energy :: "simpleDev list \<Rightarrow> emit" where
  "c_energy = total_group ''energy'' ''AVM Fritz!Box SmartHome Energy'' ''kWh''
     ''energyInKWH''
     [''.type GAUGE'', ''.graph LINE'', ''.min   0'']
     ''Energy''"

text \<open>Lines 624 to 639.\<close>

definition c_powerswitch :: "simpleDev list \<Rightarrow> emit" where
  "c_powerswitch simpleDevices =
     emit_seq
       (say [blank2,
         Multigraph ''smarthome_powerswitch'',
         plain ''graph_title AVM Fritz!Box SmartHome Power Switch'',
         plain ''graph_vlabel On/Off'',
         plain ''graph_category smart home'',
         plain ''graph_scale no'',
         blank2])
       (emit_for (\<lambda>dev.
          emit_get (field dev ''present'') (\<lambda>p.
            only_if (truthy p \<and> dev ''powerSwitchOn'' \<noteq> None)
              (emit_all
                [print_label ''smarthome_powerswitch'' dev,
                 print_attr ''smarthome_powerswitch'' ''.type GAUGE'' dev,
                 print_attr ''smarthome_powerswitch'' ''.graph LINE'' dev,
                 print_attr ''smarthome_powerswitch'' ''.min   0'' dev,
                 print_attr ''smarthome_powerswitch'' ''.max   1'' dev,
                 print_info ''smarthome_powerswitch'' ''On/Off'' dev])))
        simpleDevices)"

text \<open>
  Lines 642 and 643: \<open>host_name\<close> is the variable of that name in the environment of the
  process, \<open>None\<close> when it is not set.
\<close>

definition c_host_name :: "string option \<Rightarrow> emit" where
  "c_host_name host_name =
     (case host_name of
        None \<Rightarrow> say []
      | Some h \<Rightarrow> only_if (h \<noteq> []) (say [Text [S ''host_name '', S h]]))"

definition print_config :: "string option \<Rightarrow> simpleDev list \<Rightarrow> emit" where
  "print_config host_name simpleDevices =
     emit_all
       [c_temperatures simpleDevices,
        c_humidity simpleDevices,
        c_target simpleDevices,
        c_detail simpleDevices,
        c_modes simpleDevices,
        c_modes_detail simpleDevices,
        c_battery simpleDevices,
        c_batterylow simpleDevices,
        c_voltage simpleDevices,
        c_power simpleDevices,
        c_powerAvg simpleDevices,
        c_energy simpleDevices,
        c_powerswitch simpleDevices,
        c_host_name host_name]"


section \<open>Vocabulary of the properties, and the inputs of the examples\<close>

text \<open>A parser of strings that takes no string for a number.\<close>

definition no_parse :: "string \<Rightarrow> 'a option" where
  "no_parse s = None"

text \<open>A thermostat skill that reports both ways: the state \<open>HOLIDAY\<close> and \<open>summerActive = 1\<close>.\<close>

definition holiday_summer_skill :: json where
  "holiday_summer_skill =
     JObj [(''type'', JStr ''SmartHomeThermostat''),
           (''state'', JObj [(''current'', JStr ''HOLIDAY'')]),
           (''summerActive'', JInt 1)]"

text \<open>The answer of a router with one thermostat whose state is \<open>WINDOW_OPEN\<close>.\<close>

definition window_open_data :: json where
  "window_open_data =
     JObj [(''data'', JObj [(''devices'', JArr
       [JObj [(''displayName'', JStr ''Bath''),
              (''category'', JStr ''THERMOSTAT''),
              (''type'', JStr ''SmartHomeDevice''),
              (''units'', JArr
                 [JObj [(''displayName'', JStr ''Bath''),
                        (''skills'', JArr
                           [JObj [(''type'', JStr ''SmartHomeThermostat''),
                                  (''state'', JObj [(''current'', JStr ''WINDOW_OPEN'')])]]),
                        (''type'', JStr ''THERMOSTAT''),
                        (''id'', JInt 1)]]),
              (''masterConnectionState'', JStr ''CONNECTED''),
              (''id'', JInt 16),
              (''model'', JStr ''FRITZ!DECT 301''),
              (''actorIdentificationNumber'', JStr ''09995 0000001'')]])])]"

text \<open>What the normalizer makes of it.\<close>

definition window_open_device :: simpleDev where
  "window_open_device =
     [''id'' \<mapsto> JInt 16,
      ''displayName'' \<mapsto> JStr ''Bath'',
      ''present'' \<mapsto> JBool True,
      ''model'' \<mapsto> JStr ''FRITZ!DECT 301'',
      ''identifier'' \<mapsto> JStr ''09995 0000001'',
      ''summerActive'' \<mapsto> JInt 0,
      ''holidyActive'' \<mapsto> JInt 0,
      ''windowOpen'' \<mapsto> JInt 1,
      ''targetTemperatureInDegC'' \<mapsto> JNull]"

text \<open>The fields every simplified device has, and the fields a skill may write.\<close>

definition base_fields :: "string list" where
  "base_fields = [''id'', ''displayName'', ''present'', ''model'', ''identifier'']"

definition skill_fields :: "string list" where
  "skill_fields =
     [''mode'', ''summerActive'', ''holidyActive'', ''holidayActive'', ''windowOpen'',
      ''targetTemperatureInDegC'', ''refTemperatureInDegC'', ''currentTemperatureInDegC'',
      ''currentHumidityInPct'', ''batteryChargeLevelInPct'', ''currentInAmp'', ''powerInWatt'',
      ''energyInKWH'', ''voltageInVolt'', ''powerSwitchOn'']"

text \<open>
  The skill types that write a field, and the skills and units that have none of them:
  a unit with the attributes the normalizer reads and a list of such skills.
\<close>

definition known_skill_types :: "json list" where
  "known_skill_types =
     [JStr ''SmartHomeThermostat'', JStr ''SmartHomeTemperatureSensor'',
      JStr ''SmartHomeHumiditySensor'', JStr ''SmartHomeBattery'',
      JStr ''SmartHomeMultimeter'', JStr ''SmartHomeSwitch'']"

definition other_skill :: "json \<Rightarrow> bool" where
  "other_skill skill =
     (case getitem skill ''type'' of Inl e \<Rightarrow> False | Inr t \<Rightarrow> t \<notin> set known_skill_types)"

text \<open>An operation that returns, as opposed to one that raises.\<close>

definition succeeds :: "error + 'a \<Rightarrow> bool" where
  "succeeds m = (case m of Inl e \<Rightarrow> False | Inr v \<Rightarrow> True)"

definition unit_of_other_skills :: "json \<Rightarrow> bool" where
  "unit_of_other_skills u =
     (succeeds (getitem u ''displayName'') \<and> succeeds (getitem u ''type'') \<and>
      succeeds (getitem u ''id'') \<and>
      (case getitem u ''skills'' of
         Inr (JArr skills) \<Rightarrow> list_all other_skill skills
       | _ \<Rightarrow> False))"

text \<open>The dict literal of lines 56 to 61.\<close>

definition five_fields :: "json \<Rightarrow> json \<Rightarrow> json \<Rightarrow> json \<Rightarrow> json \<Rightarrow> simpleDev" where
  "five_fields devID devDisplayName con model identifier =
     [''id'' \<mapsto> devID,
      ''displayName'' \<mapsto> devDisplayName,
      ''present'' \<mapsto> JBool (con = JStr ''CONNECTED''),
      ''model'' \<mapsto> model,
      ''identifier'' \<mapsto> identifier]"

text \<open>A disconnected plug with a socket skill and a skill of a type the program does not know.\<close>

definition plug_device :: json where
  "plug_device =
     JObj [(''displayName'', JStr ''Plug''),
           (''category'', JStr ''SOCKET''),
           (''type'', JStr ''SmartHomeDevice''),
           (''units'', JArr
              [JObj [(''displayName'', JStr ''Plug''),
                     (''skills'', JArr [JObj [(''type'', JStr ''SmartHomeSocket'')],
                                        JObj [(''type'', JStr ''SmartHomeColorControl''),
                                              (''state'', JInt 3)]]),
                     (''type'', JStr ''SOCKET''),
                     (''id'', JInt 2)]]),
           (''masterConnectionState'', JStr ''DISCONNECTED''),
           (''id'', JInt 17),
           (''model'', JStr ''FRITZ!DECT 200''),
           (''actorIdentificationNumber'', JStr ''08761 0000002'')]"


text \<open>No two keys of a dict are equal.\<close>

fun distinct_keys :: "(json \<times> 'v) list \<Rightarrow> bool" where
  "distinct_keys [] = True"
| "distinct_keys (e # m) = (list_all (\<lambda>e'. \<not> key_eq (fst e) (fst e')) m \<and> distinct_keys m)"

text \<open>The values a dict holds under the keys equal to \<open>k\<close>.\<close>

definition entries_of :: "json \<Rightarrow> (json \<times> 'v) list \<Rightarrow> 'v list" where
  "entries_of k m = map snd (filter (\<lambda>e. key_eq (fst e) k) m)"

text \<open>Two devices with the id 16 (the second as the float 16.0) around one with the id 17.\<close>

definition twin :: "string \<Rightarrow> json \<Rightarrow> json" where
  "twin n i =
     JObj [(''displayName'', JStr n),
           (''category'', JStr ''SOCKET''),
           (''type'', JStr ''SmartHomeDevice''),
           (''units'', JArr []),
           (''masterConnectionState'', JStr ''CONNECTED''),
           (''id'', i),
           (''model'', JStr ''FRITZ!DECT 200''),
           (''actorIdentificationNumber'', JStr n)]"

definition twin_data :: json where
  "twin_data =
     JObj [(''data'', JObj [(''devices'',
       JArr ([twin ''first'' (JInt 16)] @ twin ''second'' (JFloat 16) # [twin ''third'' (JInt 17)]))])]"





text \<open>A device whose display name is a string, and that string.\<close>

definition has_name :: "simpleDev \<Rightarrow> bool" where
  "has_name dev = (case dev ''displayName'' of Some (JStr s) \<Rightarrow> True | _ \<Rightarrow> False)"

definition name_of :: "simpleDev \<Rightarrow> string" where
  "name_of dev = (case dev ''displayName'' of Some (JStr s) \<Rightarrow> s | _ \<Rightarrow> [])"

text \<open>Three sockets, named \<open>plug\<close>, \<open>Bath\<close> and \<open>attic\<close> in the order of the answer.\<close>

definition names_data :: json where
  "names_data =
     JObj [(''data'', JObj [(''devices'',
       JArr [twin ''plug'' (JInt 1), twin ''Bath'' (JInt 2), twin ''attic'' (JInt 3)])])]"

definition socket :: "string \<Rightarrow> int \<Rightarrow> simpleDev" where
  "socket n i = five_fields (JInt i) (JStr n) (JStr ''CONNECTED'') (JStr ''FRITZ!DECT 200'') (JStr n)"

text \<open>The key of a decorated element, when it is a string.\<close>

definition str_key :: "json \<times> 'a \<Rightarrow> string" where
  "str_key e = (case fst e of JStr s \<Rightarrow> s | _ \<Rightarrow> [])"

definition is_str :: "json \<Rightarrow> bool" where
  "is_str v = (case v of JStr s \<Rightarrow> True | _ \<Rightarrow> False)"

text \<open>A multimeter skill that reports 45.2 W and a \<open>powerPerHour\<close> of 500, and a connected device with it.\<close>

definition meter_skill :: json where
  "meter_skill =
     JObj [(''type'', JStr ''SmartHomeMultimeter''),
           (''powerConsumptionInWatt'', JFloat (226 / 5)),
           (''powerPerHour'', JInt 500)]"

definition meter_device :: simpleDev where
  "meter_device =
     (five_fields (JInt 17) (JStr ''Plug'') (JStr ''CONNECTED'') (JStr ''FRITZ!DECT 200'')
        (JStr ''08761 0000002''))
     (''powerInWatt'' \<mapsto> JFloat (226 / 5), ''energyInKWH'' \<mapsto> JFloat (1 / 2))"



text \<open>The answer of a router with one connected plug that has the multimeter skill above.\<close>

definition meter_data :: json where
  "meter_data =
     JObj [(''data'', JObj [(''devices'', JArr
       [JObj [(''displayName'', JStr ''Plug''),
              (''category'', JStr ''SOCKET''),
              (''type'', JStr ''SmartHomeDevice''),
              (''units'', JArr
                 [JObj [(''displayName'', JStr ''Plug''),
                        (''skills'', JArr [meter_skill]),
                        (''type'', JStr ''SOCKET''),
                        (''id'', JInt 2)]]),
              (''masterConnectionState'', JStr ''CONNECTED''),
              (''id'', JInt 17),
              (''model'', JStr ''FRITZ!DECT 200''),
              (''actorIdentificationNumber'', JStr ''08761 0000002'')]])])]"






section \<open>Properties of the normalizer\<close>

lemma bnd_Inl [simp]: "bnd (Inl e) f = Inl e"
  by (simp add: bnd_def)

lemma bnd_Inr [simp]: "bnd (Inr v) f = f v"
  by (simp add: bnd_def)

lemma bnd_eq_Inr: "bnd m f = Inr y \<longleftrightarrow> (\<exists>v. m = Inr v \<and> f v = Inr y)"
  by (cases m) simp_all

lemma getitem_Inr_contains: "getitem obj k = Inr v \<Longrightarrow> contains k obj = Inr True"
  by (cases obj) (auto split: option.splits)

lemma copy_if_present_frame:
  "copy_if_present dst src skill sd = Inr sd' \<Longrightarrow> k \<noteq> dst \<Longrightarrow> sd' k = sd k"
  by (auto simp: copy_if_present_def bnd_eq_Inr split: if_splits)

lemma copy_if_present_value:
  "copy_if_present dst src skill sd = Inr sd' \<Longrightarrow> getitem skill src = Inr v \<Longrightarrow> sd' dst = Some v"
  by (auto simp: copy_if_present_def bnd_eq_Inr getitem_Inr_contains split: if_splits)

lemma copy_or_none_frame:
  "copy_or_none dst src skill sd = Inr sd' \<Longrightarrow> k \<noteq> dst \<Longrightarrow> sd' k = sd k"
  by (auto simp: copy_or_none_def bnd_eq_Inr split: if_splits)

lemma new_state_frame:
  "new_state skill sd = Inr sd' \<Longrightarrow> k \<noteq> ''summerActive'' \<Longrightarrow> k \<noteq> ''holidyActive'' \<Longrightarrow>
   k \<noteq> ''windowOpen'' \<Longrightarrow> sd' k = sd k"
  by (auto simp: new_state_def bnd_eq_Inr split: if_splits)

lemma old_window_frame:
  "old_window skill sd = Inr sd' \<Longrightarrow> k \<noteq> ''windowOpen'' \<Longrightarrow> sd' k = sd k"
  by (auto simp: old_window_def bnd_eq_Inr split: if_splits)

lemma old_window_value:
  "old_window skill sd = Inr sd' \<Longrightarrow> getitem skill ''temperatureDropDetection'' = Inr t \<Longrightarrow>
   getitem t ''isWindowOpen'' = Inr v \<Longrightarrow> sd' ''windowOpen'' = Some v"
  by (auto simp: old_window_def bnd_eq_Inr getitem_Inr_contains split: if_splits)

lemma for_each_frame:
  assumes step: "\<And>x s s'. f x s = Inr s' \<Longrightarrow> P s \<Longrightarrow> P s'"
  shows "for_each f xs s = Inr s' \<Longrightarrow> P s \<Longrightarrow> P s'"
proof (induction xs arbitrary: s)
  case Nil
  then show ?case by simp
next
  case (Cons x xs)
  from Cons.prems(1) obtain s1 where "f x s = Inr s1" and "for_each f xs s1 = Inr s'"
    by (auto simp: bnd_eq_Inr)
  with Cons.IH step Cons.prems(2) show ?case by blast
qed

lemma ref_temp_frame:
  assumes "ref_temp skill sd = Inr sd'" and "k \<noteq> ''refTemperatureInDegC''"
  shows "sd' k = sd k"
proof -
  have loop: "sd' k = sd k"
    if "for_each (copy_if_present ''refTemperatureInDegC'' ''currentInCelsius'') rs sd = Inr sd'"
    for rs
  proof (rule for_each_frame [where P = "\<lambda>s. s k = sd k", OF _ that])
    show "s' k = sd k"
      if "copy_if_present ''refTemperatureInDegC'' ''currentInCelsius'' x s = Inr s'"
        and "s k = sd k" for x s s'
      using copy_if_present_frame [OF that(1) assms(2)] that(2) by simp
  qed simp
  from assms(1) show ?thesis
    by (auto simp: ref_temp_def bnd_eq_Inr loop split: if_splits)
qed

lemma normalize_skill_thermostat:
  "getitem skill ''type'' = Inr (JStr ''SmartHomeThermostat'') \<Longrightarrow>
   normalize_skill fstr skill sd = thermostat skill sd"
  by (simp add: normalize_skill_def)

text \<open>
  C1. A thermostat skill is processed in the order of the source: the state of the newer
  firmware first, the flat fields of the older firmware after it. Whenever the skill is
  processed without an exception, every legacy field it carries (\<open>summerActive\<close>,
  \<open>holidayActive\<close>, \<open>temperatureDropDetection.isWindowOpen\<close>) is the value of the field of
  the simplified device, whatever the newer state wrote there: the legacy value wins.
  For the skill with the state \<open>HOLIDAY\<close> and \<open>summerActive = 1\<close> the result has
  \<open>summerActive = 1\<close>.
\<close>

theorem legacy_fields_win:
  assumes ty: "getitem skill ''type'' = Inr (JStr ''SmartHomeThermostat'')"
      and run: "normalize_skill fstr skill sd = Inr sd'"
  shows "(getitem skill ''summerActive'' = Inr v \<longrightarrow> sd' ''summerActive'' = Some v) \<and>
         (getitem skill ''holidayActive'' = Inr w \<longrightarrow> sd' ''holidayActive'' = Some w) \<and>
         (getitem skill ''temperatureDropDetection'' = Inr t \<and> getitem t ''isWindowOpen'' = Inr u
            \<longrightarrow> sd' ''windowOpen'' = Some u)"
proof -
  from ty run have "thermostat skill sd = Inr sd'"
    by (simp add: normalize_skill_thermostat)
  then obtain s1 s2 s3 s4 s5 s6 where
        s1: "copy_if_present ''mode'' ''mode'' skill sd = Inr s1"
    and s2: "new_state skill s1 = Inr s2"
    and s3: "copy_if_present ''summerActive'' ''summerActive'' skill s2 = Inr s3"
    and s4: "copy_if_present ''holidayActive'' ''holidayActive'' skill s3 = Inr s4"
    and s5: "old_window skill s4 = Inr s5"
    and s6: "copy_or_none ''targetTemperatureInDegC'' ''targetTemp'' skill s5 = Inr s6"
    and s7: "ref_temp skill s6 = Inr sd'"
    unfolding thermostat_def bnd_eq_Inr by blast
  have later5: "sd' k = s5 k" if "k \<noteq> ''targetTemperatureInDegC''" "k \<noteq> ''refTemperatureInDegC''" for k
    using that copy_or_none_frame [OF s6] ref_temp_frame [OF s7] by simp
  have summer: "sd' ''summerActive'' = Some v" if "getitem skill ''summerActive'' = Inr v"
  proof -
    have "s3 ''summerActive'' = Some v"
      using copy_if_present_value [OF s3 that] .
    moreover have "s4 ''summerActive'' = s3 ''summerActive''"
      using copy_if_present_frame [OF s4] by simp
    moreover have "s5 ''summerActive'' = s4 ''summerActive''"
      using old_window_frame [OF s5] by simp
    ultimately show ?thesis using later5 [of "''summerActive''"] by simp
  qed
  have holiday: "sd' ''holidayActive'' = Some w" if "getitem skill ''holidayActive'' = Inr w"
  proof -
    have "s4 ''holidayActive'' = Some w"
      using copy_if_present_value [OF s4 that] .
    moreover have "s5 ''holidayActive'' = s4 ''holidayActive''"
      using old_window_frame [OF s5] by simp
    ultimately show ?thesis using later5 [of "''holidayActive''"] by simp
  qed
  have window: "sd' ''windowOpen'' = Some u"
    if "getitem skill ''temperatureDropDetection'' = Inr t" "getitem t ''isWindowOpen'' = Inr u"
    using old_window_value [OF s5 that] later5 [of "''windowOpen''"] by simp
  from summer holiday window show ?thesis by blast
qed

theorem legacy_fields_win_witness:
  "getitem holiday_summer_skill ''type'' = Inr (JStr ''SmartHomeThermostat'') \<and>
   getitem holiday_summer_skill ''summerActive'' = Inr (JInt 1) \<and>
   (\<exists>sd'. normalize_skill no_parse holiday_summer_skill Map.empty = Inr sd' \<and>
          sd' ''summerActive'' = Some (JInt 1))"
proof -
  have ty: "getitem holiday_summer_skill ''type'' = Inr (JStr ''SmartHomeThermostat'')"
    by (simp add: holiday_summer_skill_def)
  have legacy: "getitem holiday_summer_skill ''summerActive'' = Inr (JInt 1)"
    by (simp add: holiday_summer_skill_def)
  obtain sd' where run: "normalize_skill no_parse holiday_summer_skill Map.empty = Inr sd'"
    by (simp add: normalize_skill_def holiday_summer_skill_def thermostat_def
        copy_if_present_def new_state_def old_window_def copy_or_none_def ref_temp_def)
  from legacy_fields_win [OF ty run, of "JInt 1"] legacy
  have "sd' ''summerActive'' = Some (JInt 1)" by simp
  with ty legacy run show ?thesis by blast
qed

lemmas thermostat_defs = thermostat_def copy_if_present_def new_state_def old_window_def
  copy_or_none_def ref_temp_def flag_def

text \<open>
  C2. The skill of a device whose only state is \<open>WINDOW_OPEN\<close>, through the whole normalizer:
  \<open>windowOpen\<close> is 1 and \<open>summerActive\<close> is 0, but the holiday flag is stored under the key
  \<open>holidyActive\<close> of line 91, and the field \<open>holidayActive\<close>, which the emitters read, is
  absent.
\<close>

theorem window_open_holiday_key:
  "getSimplifiedDevices no_parse window_open_data = Inr [(JInt 16, window_open_device)] \<and>
   window_open_device ''windowOpen'' = Some (JInt 1) \<and>
   window_open_device ''summerActive'' = Some (JInt 0) \<and>
   window_open_device ''holidayActive'' = None \<and>
   window_open_device ''holidyActive'' = Some (JInt 0)"
  by (simp add: getSimplifiedDevices_def window_open_data_def store_device_def normalize_device_def
      normalize_unit_def normalize_skill_def thermostat_defs window_open_device_def)

lemma succeeds_iff: "succeeds m \<longleftrightarrow> (\<exists>v. m = Inr v)"
  by (cases m) (simp_all add: succeeds_def)

lemma energy_frame:
  "energy fstr skill sd = Inr sd' \<Longrightarrow> k \<noteq> ''energyInKWH'' \<Longrightarrow> sd' k = sd k"
  by (auto simp: energy_def bnd_eq_Inr split: if_splits)

lemma switch_frame:
  "switch skill sd = Inr sd' \<Longrightarrow> k \<noteq> ''powerSwitchOn'' \<Longrightarrow> sd' k = sd k"
  by (auto simp: switch_def bnd_eq_Inr split: if_splits)

lemma thermostat_frame:
  assumes "thermostat skill sd = Inr sd'" and "k \<notin> set skill_fields"
  shows "sd' k = sd k"
proof -
  from assms(1) obtain s1 s2 s3 s4 s5 s6 where
        s1: "copy_if_present ''mode'' ''mode'' skill sd = Inr s1"
    and s2: "new_state skill s1 = Inr s2"
    and s3: "copy_if_present ''summerActive'' ''summerActive'' skill s2 = Inr s3"
    and s4: "copy_if_present ''holidayActive'' ''holidayActive'' skill s3 = Inr s4"
    and s5: "old_window skill s4 = Inr s5"
    and s6: "copy_or_none ''targetTemperatureInDegC'' ''targetTemp'' skill s5 = Inr s6"
    and s7: "ref_temp skill s6 = Inr sd'"
    unfolding thermostat_def bnd_eq_Inr by blast
  from assms(2) have k: "k \<noteq> ''mode''" "k \<noteq> ''summerActive''" "k \<noteq> ''holidyActive''"
    "k \<noteq> ''holidayActive''" "k \<noteq> ''windowOpen''" "k \<noteq> ''targetTemperatureInDegC''"
    "k \<noteq> ''refTemperatureInDegC''"
    by (auto simp: skill_fields_def)
  have "s1 k = sd k" using copy_if_present_frame [OF s1 k(1)] .
  moreover have "s2 k = s1 k" using new_state_frame [OF s2 k(2) k(3) k(5)] .
  moreover have "s3 k = s2 k" using copy_if_present_frame [OF s3 k(2)] .
  moreover have "s4 k = s3 k" using copy_if_present_frame [OF s4 k(4)] .
  moreover have "s5 k = s4 k" using old_window_frame [OF s5 k(5)] .
  moreover have "s6 k = s5 k" using copy_or_none_frame [OF s6 k(6)] .
  moreover have "sd' k = s6 k" using ref_temp_frame [OF s7 k(7)] .
  ultimately show ?thesis by simp
qed

lemma multimeter_frame:
  assumes "multimeter fstr skill sd = Inr sd'" and "k \<notin> set skill_fields"
  shows "sd' k = sd k"
proof -
  from assms(1) obtain s1 s2 s3 where
        s1: "copy_if_present ''currentInAmp'' ''electricCurrentInAmpere'' skill sd = Inr s1"
    and s2: "copy_if_present ''powerInWatt'' ''powerConsumptionInWatt'' skill s1 = Inr s2"
    and s3: "energy fstr skill s2 = Inr s3"
    and s4: "copy_if_present ''voltageInVolt'' ''voltageInVolt'' skill s3 = Inr sd'"
    unfolding multimeter_def bnd_eq_Inr by blast
  from assms(2) have k: "k \<noteq> ''currentInAmp''" "k \<noteq> ''powerInWatt''" "k \<noteq> ''energyInKWH''"
    "k \<noteq> ''voltageInVolt''"
    by (auto simp: skill_fields_def)
  have "s1 k = sd k" using copy_if_present_frame [OF s1 k(1)] .
  moreover have "s2 k = s1 k" using copy_if_present_frame [OF s2 k(2)] .
  moreover have "s3 k = s2 k" using energy_frame [OF s3 k(3)] .
  moreover have "sd' k = s3 k" using copy_if_present_frame [OF s4 k(4)] .
  ultimately show ?thesis by simp
qed

lemma normalize_skill_frame:
  assumes "normalize_skill fstr skill sd = Inr sd'" and "k \<notin> set skill_fields"
  shows "sd' k = sd k"
proof -
  from assms(2) have k: "k \<noteq> ''currentTemperatureInDegC''" "k \<noteq> ''currentHumidityInPct''"
    "k \<noteq> ''batteryChargeLevelInPct''" "k \<noteq> ''powerSwitchOn''"
    by (auto simp: skill_fields_def)
  from assms(1) obtain t where t: "getitem skill ''type'' = Inr t"
    by (auto simp: normalize_skill_def bnd_eq_Inr)
  show ?thesis
    using assms(1) thermostat_frame [OF _ assms(2)] multimeter_frame [OF _ assms(2)]
      copy_or_none_frame [OF _ k(1)] copy_or_none_frame [OF _ k(2)] copy_or_none_frame [OF _ k(3)]
      switch_frame [OF _ k(4)]
    unfolding normalize_skill_def t bnd_Inr
    by (simp split: if_splits)
qed

lemma normalize_unit_frame:
  assumes "normalize_unit fstr u sd = Inr sd'" and "k \<notin> set skill_fields"
  shows "sd' k = sd k"
proof -
  from assms(1) obtain ss where "for_each (normalize_skill fstr) ss sd = Inr sd'"
    by (auto simp: normalize_unit_def bnd_eq_Inr)
  then show ?thesis
  proof (rule for_each_frame [where P = "\<lambda>s. s k = sd k", rotated])
    show "s' k = sd k" if "normalize_skill fstr x s = Inr s'" and "s k = sd k" for x s s'
      using normalize_skill_frame [OF that(1) assms(2)] that(2) by simp
  qed simp
qed

lemma normalize_device_result:
  assumes "normalize_device fstr device = Inr (i, sd)"
  shows "\<exists>n con mo ain.
           getitem device ''id'' = Inr i \<and> getitem device ''displayName'' = Inr n \<and>
           getitem device ''masterConnectionState'' = Inr con \<and>
           getitem device ''model'' = Inr mo \<and>
           getitem device ''actorIdentificationNumber'' = Inr ain \<and>
           (\<forall>k. k \<notin> set skill_fields \<longrightarrow> sd k = five_fields i n con mo ain k)"
proof -
  from assms obtain n con mo ain us where
        g: "getitem device ''id'' = Inr i" "getitem device ''displayName'' = Inr n"
           "getitem device ''masterConnectionState'' = Inr con"
           "getitem device ''model'' = Inr mo"
           "getitem device ''actorIdentificationNumber'' = Inr ain"
    and loop: "for_each (normalize_unit fstr) us (five_fields i n con mo ain) = Inr sd"
    unfolding normalize_device_def bnd_eq_Inr five_fields_def by auto
  have "sd k = five_fields i n con mo ain k" if k: "k \<notin> set skill_fields" for k
    using loop
  proof (rule for_each_frame [where P = "\<lambda>s. s k = five_fields i n con mo ain k", rotated])
    show "s' k = five_fields i n con mo ain k"
      if "normalize_unit fstr x s = Inr s'" and "s k = five_fields i n con mo ain k" for x s s'
      using normalize_unit_frame [OF that(1) k] that(2) by simp
  qed simp
  with g show ?thesis by blast
qed



lemma normalize_skill_other: "other_skill skill \<Longrightarrow> normalize_skill fstr skill sd = Inr sd"
  by (auto simp: other_skill_def normalize_skill_def known_skill_types_def split: sum.splits)

lemma for_each_other_skills:
  "list_all other_skill skills \<Longrightarrow> for_each (normalize_skill fstr) skills sd = Inr sd"
  by (induction skills) (simp_all add: normalize_skill_other)

lemma normalize_unit_other:
  "unit_of_other_skills u \<Longrightarrow> normalize_unit fstr u sd = Inr sd"
  by (auto simp: unit_of_other_skills_def normalize_unit_def for_each_other_skills succeeds_iff
      split: sum.splits json.splits)

lemma for_each_other_units:
  "list_all unit_of_other_skills us \<Longrightarrow> for_each (normalize_unit fstr) us sd = Inr sd"
  by (induction us) (simp_all add: normalize_unit_other)

lemma dom_five_fields: "dom (five_fields i n con mo ain) = set base_fields"
  by (auto simp: five_fields_def base_fields_def split: if_splits)

text \<open>
  C6. A device with the eight attributes the normalizer reads, whose units are lists of
  skills of none of the six types that write a field (\<open>SmartHomeSocket\<close> and the types
  the program does not know among them), is normalized without an exception to the
  record of exactly the five fields \<open>id\<close>, \<open>displayName\<close>, \<open>present\<close>, \<open>model\<close>,
  \<open>identifier\<close>; and a skill of such a type never raises and changes nothing.
\<close>

theorem only_five_fields:
  assumes "getitem device ''displayName'' = Inr n"
      and "getitem device ''category'' = Inr c"
      and "getitem device ''type'' = Inr t"
      and "getitem device ''units'' = Inr (JArr us)"
      and "getitem device ''masterConnectionState'' = Inr con"
      and "getitem device ''id'' = Inr i"
      and "getitem device ''model'' = Inr mo"
      and "getitem device ''actorIdentificationNumber'' = Inr ain"
      and "list_all unit_of_other_skills us"
  shows "normalize_device fstr device = Inr (i, five_fields i n con mo ain) \<and>
         dom (five_fields i n con mo ain) = set base_fields \<and>
         (other_skill skill \<longrightarrow> normalize_skill fstr skill sd = Inr sd)"
proof -
  have "normalize_device fstr device = Inr (i, five_fields i n con mo ain)"
    using assms by (simp add: normalize_device_def for_each_other_units five_fields_def)
  then show ?thesis
    by (simp add: dom_five_fields normalize_skill_other)
qed

theorem only_five_fields_witness:
  "normalize_device no_parse plug_device =
     Inr (JInt 17,
          five_fields (JInt 17) (JStr ''Plug'') (JStr ''DISCONNECTED'') (JStr ''FRITZ!DECT 200'')
            (JStr ''08761 0000002'')) \<and>
   dom (five_fields (JInt 17) (JStr ''Plug'') (JStr ''DISCONNECTED'') (JStr ''FRITZ!DECT 200'')
            (JStr ''08761 0000002'')) = set base_fields \<and>
   normalize_skill no_parse (JObj [(''type'', JStr ''SmartHomeColorControl''), (''state'', JInt 3)])
     Map.empty = Inr Map.empty"
proof -
  have units: "list_all unit_of_other_skills
     [JObj [(''displayName'', JStr ''Plug''),
            (''skills'', JArr [JObj [(''type'', JStr ''SmartHomeSocket'')],
                               JObj [(''type'', JStr ''SmartHomeColorControl''),
                                     (''state'', JInt 3)]]),
            (''type'', JStr ''SOCKET''),
            (''id'', JInt 2)]]"
    by (simp add: unit_of_other_skills_def other_skill_def known_skill_types_def succeeds_def)
  have other: "other_skill (JObj [(''type'', JStr ''SmartHomeColorControl''), (''state'', JInt 3)])"
    by (simp add: other_skill_def known_skill_types_def)
  show ?thesis
    using only_five_fields [where device = plug_device and fstr = no_parse, OF _ _ _ _ _ _ _ _ units,
        where skill = "JObj [(''type'', JStr ''SmartHomeColorControl''), (''state'', JInt 3)]"
          and sd = Map.empty] other
    by (simp add: plug_device_def)
qed

lemma key_eq_refl [simp]: "key_eq a a"
  by (simp add: key_eq_def split: option.splits)

lemma key_eq_sym: "key_eq a b \<Longrightarrow> key_eq b a"
  by (auto simp: key_eq_def split: option.splits)

lemma key_eq_trans: "key_eq a b \<Longrightarrow> key_eq b c \<Longrightarrow> key_eq a c"
  by (auto simp: key_eq_def split: option.splits)

lemma dict_set_keys: "fst ` set (dict_set m k v) \<subseteq> insert k (fst ` set m)"
proof (induction m)
  case Nil
  then show ?case by simp
next
  case (Cons e m)
  obtain a b where e: "e = (a, b)" by (cases e)
  show ?case
  proof (cases "key_eq a k")
    case True
    then show ?thesis unfolding e by auto
  next
    case False
    with Cons.IH show ?thesis unfolding e by auto
  qed
qed

lemma dict_set_distinct: "distinct_keys m \<Longrightarrow> distinct_keys (dict_set m k v)"
proof (induction m)
  case Nil
  then show ?case by simp
next
  case (Cons e m)
  obtain a b where e: "e = (a, b)" by (cases e)
  from Cons.prems have fresh: "\<forall>e' \<in> set m. \<not> key_eq a (fst e')" and dm: "distinct_keys m"
    by (simp_all add: e list_all_iff)
  show ?case
  proof (cases "key_eq a k")
    case True
    with fresh dm show ?thesis by (simp add: e list_all_iff)
  next
    case False
    have "\<not> key_eq a (fst e')" if "e' \<in> set (dict_set m k v)" for e'
    proof -
      from that dict_set_keys [of m k v] have "fst e' = k \<or> fst e' \<in> fst ` set m" by auto
      with False fresh show ?thesis by auto
    qed
    with False Cons.IH [OF dm] show ?thesis by (simp add: e list_all_iff)
  qed
qed

lemma entries_of_dict_set_same:
  "distinct_keys m \<Longrightarrow> entries_of k (dict_set m k v) = [v]"
proof (induction m)
  case Nil
  then show ?case by (simp add: entries_of_def)
next
  case (Cons e m)
  obtain a b where e: "e = (a, b)" by (cases e)
  from Cons.prems have fresh: "\<forall>e' \<in> set m. \<not> key_eq a (fst e')" and dm: "distinct_keys m"
    by (simp_all add: e list_all_iff)
  show ?case
  proof (cases "key_eq a k")
    case True
    have "\<not> key_eq (fst e') k" if "e' \<in> set m" for e'
      using that fresh True key_eq_trans [of a k "fst e'"] key_eq_sym [of "fst e'" k] by blast
    then have "filter (\<lambda>e'. key_eq (fst e') k) m = []"
      by (simp add: filter_empty_conv)
    with True show ?thesis by (simp add: e entries_of_def)
  next
    case False
    with Cons.IH [OF dm] show ?thesis by (simp add: e entries_of_def)
  qed
qed

lemma entries_of_dict_set_other:
  "\<not> key_eq j k \<Longrightarrow> entries_of k (dict_set m j v) = entries_of k m"
proof (induction m)
  case Nil
  then show ?case by (simp add: entries_of_def)
next
  case (Cons e m)
  obtain a b where e: "e = (a, b)" by (cases e)
  show ?case
  proof (cases "key_eq a j")
    case True
    with Cons.prems have "\<not> key_eq a k"
      using key_eq_trans [of j a k] key_eq_sym [of a j] by blast
    with True show ?thesis by (simp add: e entries_of_def)
  next
    case False
    with Cons show ?thesis by (simp add: e entries_of_def)
  qed
qed

lemma for_each_append:
  "for_each f (xs @ ys) s = bnd (for_each f xs s) (for_each f ys)"
  by (induction xs arbitrary: s) (simp_all add: bnd_def split: sum.splits)

lemma store_device_result:
  assumes "store_device fstr dev m = Inr m'"
  shows "\<exists>i sd. normalize_device fstr dev = Inr (i, sd) \<and> getitem dev ''id'' = Inr i \<and>
                m' = dict_set m i sd"
proof -
  from assms obtain i sd where nd: "normalize_device fstr dev = Inr (i, sd)"
      and m': "m' = dict_set m i sd"
    by (auto simp: store_device_def bnd_eq_Inr split: if_splits)
  from normalize_device_result [OF nd] have "getitem dev ''id'' = Inr i" by blast
  with nd m' show ?thesis by blast
qed

lemma store_loop_distinct:
  assumes "for_each (store_device fstr) ds m = Inr m'" and "distinct_keys m"
  shows "distinct_keys m'"
  using assms(1)
proof (rule for_each_frame [where P = distinct_keys, rotated])
  show "distinct_keys s'" if "store_device fstr x s = Inr s'" and "distinct_keys s" for x s s'
    using store_device_result [OF that(1)] dict_set_distinct [OF that(2)] by auto
qed (rule assms(2))

lemma store_loop_other:
  assumes loop: "for_each (store_device fstr) ds m = Inr m'"
      and other: "\<forall>dev \<in> set ds. \<forall>j. getitem dev ''id'' = Inr j \<longrightarrow> \<not> key_eq j k"
  shows "entries_of k m' = entries_of k m"
  using loop other
proof (induction ds arbitrary: m)
  case Nil
  then show ?case by simp
next
  case (Cons dev ds)
  from Cons.prems(1) obtain m1 where step: "store_device fstr dev m = Inr m1"
      and rest: "for_each (store_device fstr) ds m1 = Inr m'"
    by (auto simp: bnd_eq_Inr)
  from store_device_result [OF step] obtain j sd where
      j: "getitem dev ''id'' = Inr j" and m1: "m1 = dict_set m j sd"
    by blast
  from Cons.prems(2) j have "\<not> key_eq j k" by simp
  then have "entries_of k m1 = entries_of k m"
    unfolding m1 by (rule entries_of_dict_set_other)
  moreover from Cons.IH [OF rest] Cons.prems(2) have "entries_of k m' = entries_of k m1"
    by simp
  ultimately show ?case by simp
qed

text \<open>
  C10. The result is a dict: no two of its keys are equal. When the answer lists several
  devices with the same id, the dict holds under that id one record, the one normalized
  from the last of them: for a device \<open>dev\<close> of the list with the id \<open>i\<close> and the record
  \<open>sd\<close>, after which no device has an id equal to \<open>i\<close>, the entries of the result under
  \<open>i\<close> are \<open>sd\<close> alone, whatever came before \<open>dev\<close>.
\<close>

theorem duplicate_ids_last_wins:
  assumes "getitem data ''data'' = Inr d"
      and "getitem d ''devices'' = Inr (JArr (pre @ dev # post))"
      and "getSimplifiedDevices fstr data = Inr m"
      and "normalize_device fstr dev = Inr (i, sd)"
      and "\<forall>dev' \<in> set post. \<forall>j. getitem dev' ''id'' = Inr j \<longrightarrow> \<not> key_eq j i"
  shows "distinct_keys m \<and> entries_of i m = [sd]"
proof -
  from assms(1-3) have "for_each (store_device fstr) (pre @ dev # post) [] = Inr m"
    by (simp add: getSimplifiedDevices_def)
  then obtain m1 m2 where
        pre: "for_each (store_device fstr) pre [] = Inr m1"
    and step: "store_device fstr dev m1 = Inr m2"
    and post: "for_each (store_device fstr) post m2 = Inr m"
    by (auto simp: for_each_append bnd_eq_Inr)
  have d1: "distinct_keys m1"
    using store_loop_distinct [OF pre] by simp
  from store_device_result [OF step] assms(4) have m2: "m2 = dict_set m1 i sd"
    by auto
  have d2: "distinct_keys m2"
    unfolding m2 using d1 by (rule dict_set_distinct)
  have "entries_of i m2 = [sd]"
    unfolding m2 using d1 by (rule entries_of_dict_set_same)
  moreover have "entries_of i m = entries_of i m2"
    using post assms(5) by (rule store_loop_other)
  moreover have "distinct_keys m"
    using post d2 by (rule store_loop_distinct)
  ultimately show ?thesis by simp
qed

lemma normalize_twin:
  "normalize_device fstr (twin n i) =
     Inr (i, five_fields i (JStr n) (JStr ''CONNECTED'') (JStr ''FRITZ!DECT 200'') (JStr n))"
  by (simp add: normalize_device_def twin_def five_fields_def)

theorem duplicate_ids_last_wins_witness:
  "getSimplifiedDevices no_parse twin_data =
     Inr [(JInt 16, five_fields (JFloat 16) (JStr ''second'') (JStr ''CONNECTED'')
                      (JStr ''FRITZ!DECT 200'') (JStr ''second'')),
          (JInt 17, five_fields (JInt 17) (JStr ''third'') (JStr ''CONNECTED'')
                      (JStr ''FRITZ!DECT 200'') (JStr ''third''))] \<and>
   entries_of (JFloat 16)
     [(JInt 16, five_fields (JFloat 16) (JStr ''second'') (JStr ''CONNECTED'')
                  (JStr ''FRITZ!DECT 200'') (JStr ''second'')),
      (JInt 17, five_fields (JInt 17) (JStr ''third'') (JStr ''CONNECTED'')
                  (JStr ''FRITZ!DECT 200'') (JStr ''third''))] =
     [five_fields (JFloat 16) (JStr ''second'') (JStr ''CONNECTED'')
        (JStr ''FRITZ!DECT 200'') (JStr ''second'')]"
proof -
  let ?m = "[(JInt 16, five_fields (JFloat 16) (JStr ''second'') (JStr ''CONNECTED'')
                      (JStr ''FRITZ!DECT 200'') (JStr ''second'')),
             (JInt 17, five_fields (JInt 17) (JStr ''third'') (JStr ''CONNECTED'')
                      (JStr ''FRITZ!DECT 200'') (JStr ''third''))]"
  have d: "getitem twin_data ''data'' =
      Inr (JObj [(''devices'',
        JArr ([twin ''first'' (JInt 16)] @ twin ''second'' (JFloat 16) # [twin ''third'' (JInt 17)]))])"
    by (simp add: twin_data_def)
  have ds: "getitem (JObj [(''devices'',
        JArr ([twin ''first'' (JInt 16)] @ twin ''second'' (JFloat 16) # [twin ''third'' (JInt 17)]))])
      ''devices'' =
      Inr (JArr ([twin ''first'' (JInt 16)] @ twin ''second'' (JFloat 16) # [twin ''third'' (JInt 17)]))"
    by simp
  have run: "getSimplifiedDevices no_parse twin_data = Inr ?m"
    by (simp add: getSimplifiedDevices_def twin_data_def store_device_def normalize_twin key_eq_def)
  have later: "\<forall>dev' \<in> set [twin ''third'' (JInt 17)]. \<forall>j. getitem dev' ''id'' = Inr j \<longrightarrow>
      \<not> key_eq j (JFloat 16)"
    by (simp add: twin_def key_eq_def)
  from duplicate_ids_last_wins [OF d ds run normalize_twin later] run
  show ?thesis by simp
qed




lemma succeeds_Inr [simp]: "succeeds (Inr v)"
  by (simp add: succeeds_def)

lemma succeeds_Inl [simp]: "\<not> succeeds (Inl e)"
  by (simp add: succeeds_def)
























lemma is_strE: "is_str v \<Longrightarrow> (\<And>s. v = JStr s \<Longrightarrow> P) \<Longrightarrow> P"
  by (cases v) (simp_all add: is_str_def)

lemma insert_by_strings:
  assumes "is_str (fst x)" and "\<forall>y \<in> set ys. is_str (fst y)"
  shows "insert_by x ys = Inr (insort_key str_key x ys)"
  using assms(2)
proof (induction ys)
  case Nil
  then show ?case by simp
next
  case (Cons y ys)
  from assms(1) obtain a where a: "fst x = JStr a" by (rule is_strE)
  from Cons.prems obtain b where b: "fst y = JStr b" by (auto elim: is_strE)
  from Cons have IH: "insert_by x ys = Inr (insort_key str_key x ys)" by simp
  have keys: "str_key x = a" "str_key y = b"
    by (simp_all add: a b str_key_def)
  show ?case
    by (auto simp: a b IH keys)
qed

lemma sort_by_strings:
  assumes "\<forall>y \<in> set xs. is_str (fst y)"
  shows "sort_by xs = Inr (sort_key str_key xs)"
  using assms
proof (induction xs)
  case Nil
  then show ?case by simp
next
  case (Cons x xs)
  then have IH: "sort_by xs = Inr (sort_key str_key xs)" by simp
  have "insert_by x (sort_key str_key xs) = Inr (insort_key str_key x (sort_key str_key xs))"
    using Cons.prems by (intro insert_by_strings) simp_all
  with IH show ?case by simp
qed

lemma keyed_strings:
  "list_all has_name devs \<Longrightarrow> keyed devs = Inr (map (\<lambda>d. (JStr (name_of d), d)) devs)"
  by (induction devs)
    (auto simp: has_name_def name_of_def field_def split: option.splits json.splits)

lemma insort_key_map:
  "insort_key f (g x) (map g ys) = map g (insort_key (\<lambda>y. f (g y)) x ys)"
  by (induction ys) simp_all

lemma sort_key_map: "sort_key f (map g xs) = map g (sort_key (\<lambda>y. f (g y)) xs)"
  by (induction xs) (simp_all add: insort_key_map)

lemma py_sorted_strings:
  assumes "list_all has_name devs"
  shows "py_sorted devs = Inr (sort_key name_of devs)"
proof -
  let ?g = "\<lambda>d. (JStr (name_of d), d)"
  have "sort_by (map ?g devs) = Inr (sort_key str_key (map ?g devs))"
    by (rule sort_by_strings) (simp add: is_str_def)
  moreover have "sort_key str_key (map ?g devs) = map ?g (sort_key name_of devs)"
    by (simp add: sort_key_map str_key_def)
  ultimately show ?thesis
    using keyed_strings [OF assms] by (simp add: py_sorted_def comp_def)
qed

text \<open>
  C8. When the display names of the normalized devices are strings, \<open>getDevices\<close> returns
  the values of the dict sorted by display name with the stable sort: a permutation of
  the values in which a device that precedes another has a display name less than or
  equal to the other's, in the order of the characters (upper case before lower case).
\<close>

theorem getDevices_sorted_by_name:
  assumes "getSimplifiedDevices fstr data = Inr m"
      and "list_all has_name (map snd m)"
  shows "\<exists>devs. getDevices fstr data = Inr devs \<and>
           devs = sort_key name_of (map snd m) \<and>
           mset devs = mset (map snd m) \<and>
           (\<forall>i j. i < j \<and> j < length devs \<longrightarrow> name_of (devs ! i) \<le> name_of (devs ! j))"
proof -
  let ?devs = "sort_key name_of (map snd m)"
  have run: "getDevices fstr data = Inr ?devs"
    using assms by (simp add: getDevices_def py_sorted_strings)
  have "sorted (map name_of ?devs)"
    by (rule sorted_sort_key)
  then have "name_of (?devs ! i) \<le> name_of (?devs ! j)" if "i < j" and "j < length ?devs" for i j
    using that sorted_iff_nth_mono [of "map name_of ?devs"] by simp
  with run show ?thesis by simp
qed

lemma normalize_socket: "normalize_device fstr (twin n (JInt i)) = Inr (JInt i, socket n i)"
  by (simp add: normalize_twin socket_def)

lemma names_run:
  "getSimplifiedDevices no_parse names_data =
     Inr [(JInt 1, socket ''plug'' 1), (JInt 2, socket ''Bath'' 2), (JInt 3, socket ''attic'' 3)]"
  by (simp add: getSimplifiedDevices_def names_data_def store_device_def normalize_socket key_eq_def)

lemma name_of_socket [simp]: "name_of (socket n i) = n"
  by (simp add: name_of_def socket_def five_fields_def)

lemma has_name_socket [simp]: "has_name (socket n i)"
  by (simp add: has_name_def socket_def five_fields_def)

theorem getDevices_sorted_by_name_witness:
  "getDevices no_parse names_data =
     Inr [socket ''Bath'' 2, socket ''attic'' 3, socket ''plug'' 1] \<and>
   name_of (socket ''Bath'' 2) \<le> name_of (socket ''attic'' 3) \<and>
   name_of (socket ''attic'' 3) \<le> name_of (socket ''plug'' 1)"
proof -
  have le: "''Bath'' \<le> ''attic''" "''attic'' \<le> ''plug''" "\<not> ''plug'' \<le> ''Bath''"
    "\<not> ''plug'' \<le> ''attic''"
    by code_simp+
  have "list_all has_name
     (map snd [(JInt 1, socket ''plug'' 1), (JInt 2, socket ''Bath'' 2), (JInt 3, socket ''attic'' 3)])"
    by simp
  from getDevices_sorted_by_name [OF names_run this] le
  show ?thesis by simp
qed

lemma copy_if_present_obj: "succeeds (copy_if_present dst src (JObj kvs) sd)"
  by (cases "map_of kvs src") (simp_all add: copy_if_present_def)

lemma multimeter_energy:
  assumes "getitem skill ''powerPerHour'' = Inr p" and "py_float fstr p = Inr x"
  shows "\<exists>sd'. multimeter fstr skill sd = Inr sd' \<and>
               sd' ''energyInKWH'' = Some (JFloat (float_div x 1000))"
proof -
  from assms(1) obtain kvs where skill: "skill = JObj kvs"
    by (cases skill) simp_all
  obtain s1 where s1:
    "copy_if_present ''currentInAmp'' ''electricCurrentInAmpere'' skill sd = Inr s1"
    using copy_if_present_obj [of "''currentInAmp''" "''electricCurrentInAmpere''" kvs sd]
    unfolding skill succeeds_iff by blast
  obtain s2 where s2:
    "copy_if_present ''powerInWatt'' ''powerConsumptionInWatt'' skill s1 = Inr s2"
    using copy_if_present_obj [of "''powerInWatt''" "''powerConsumptionInWatt''" kvs s1]
    unfolding skill succeeds_iff by blast
  have s3: "energy fstr skill s2 = Inr (s2(''energyInKWH'' \<mapsto> JFloat (float_div x 1000)))"
    using assms by (simp add: energy_def getitem_Inr_contains)
  obtain s4 where s4: "copy_if_present ''voltageInVolt'' ''voltageInVolt'' skill
      (s2(''energyInKWH'' \<mapsto> JFloat (float_div x 1000))) = Inr s4"
    using copy_if_present_obj [of "''voltageInVolt''" "''voltageInVolt''" kvs]
    unfolding skill succeeds_iff by blast
  have "s4 ''energyInKWH'' = Some (JFloat (float_div x 1000))"
    using copy_if_present_frame [OF s4, of "''energyInKWH''"] by simp
  with s1 s2 s3 s4 show ?thesis
    by (simp add: multimeter_def)
qed

lemma float_of_500: "py_float fstr (JInt 500) = Inr 500"
  by code_simp

lemma half_kwh: "float_div 500 1000 = 1 / 2"
  by code_simp

lemma half_kwh_joule: "float_mul (1 / 2) 3600000 = Some 1800000"
  by code_simp

lemma trunc_joule: "trunc 1800000 = 1800000"
  by (simp add: trunc_def)

declare say_def [simp]

lemma emit_seq_ok_left [simp]: "emit_seq (ls, None) e = (ls @ fst e, snd e)"
  by (simp add: emit_seq_def)

lemma emit_seq_nothing [simp]: "emit_seq e ([], None) = e"
  by (cases e) (simp add: emit_seq_def split: option.splits)

lemma emit_seq_assoc: "emit_seq (emit_seq a b) c = emit_seq a (emit_seq b c)"
  by (cases a; cases b) (simp add: emit_seq_def split: option.splits)

lemma emit_for_Nil [simp]: "emit_for f [] = ([], None)"
  by (simp add: emit_for_def)

lemma emit_for_Cons [simp]: "emit_for f (x # xs) = emit_seq (f x) (emit_for f xs)"
  by (simp add: emit_for_def)

lemma emit_for_append: "emit_for f (xs @ ys) = emit_seq (emit_for f xs) (emit_for f ys)"
  by (induction xs) (simp_all add: emit_seq_assoc)



lemma field_Some [simp]: "dev k = Some v \<Longrightarrow> field dev k = Inr v"
  by (simp add: field_def)

lemma emit_get_Inr [simp]: "emit_get (Inr v) k = k v"
  by (simp add: emit_get_def)

lemma only_if_False [simp]: "only_if False e = ([], None)"
  by (simp add: only_if_def)

lemma only_if_True [simp]: "only_if True e = e"
  by (simp add: only_if_def)










lemmas m_sections = m_temperatures_def m_humidity_def m_target_def m_detail_def m_modes_def
  m_modes_detail_def m_battery_def m_batterylow_def m_voltage_def m_power_def m_powerAvg_def
  m_energy_def m_powerswitch_def



lemma print_nothing:
  "print_smart_home_measurements istr [] =
     ([Multigraph ''temperatures'',
       blank, Multigraph ''humidity'',
       blank2, Multigraph ''temperatures_target'',
       blank2, Multigraph ''thermostat_modes'',
       blank, Multigraph ''battery'',
       blank, Multigraph ''batterylow'',
       blank, Multigraph ''voltage'',
       blank, Multigraph ''smarthome_power'',
       blank, Multigraph ''smarthome_powerAvg'',
       blank, Multigraph ''energy'',
       blank, Multigraph ''smarthome_powerswitch''], None)"
  by (simp add: print_smart_home_measurements_def m_sections)



lemma emit_seq_snd: "snd (emit_seq a b) = None \<longleftrightarrow> snd a = None \<and> snd b = None"
  by (cases a; cases b) (simp add: emit_seq_def split: option.splits)

lemma emit_seq_fst: "snd a = None \<Longrightarrow> fst (emit_seq a b) = fst a @ fst b"
  by (simp add: emit_seq_def)

lemma emit_get_snd:
  "snd (emit_get m k) = None \<longleftrightarrow> (\<exists>v. m = Inr v \<and> snd (k v) = None)"
  by (cases m) (simp_all add: emit_get_def)

lemma measurements_complete:
  assumes "snd (print_smart_home_measurements istr devs) = None"
  shows "snd (m_powerAvg istr devs) = None"
    and "fst (print_smart_home_measurements istr devs) =
           fst (emit_all
             [m_temperatures devs, m_humidity devs, m_target devs, m_detail devs,
              m_modes istr devs, m_modes_detail istr devs, m_battery devs, m_batterylow devs,
              m_voltage devs, m_power devs]) @
           fst (m_powerAvg istr devs) @
           fst (emit_all [m_energy devs, m_powerswitch istr devs])"
  using assms
  by (simp_all add: print_smart_home_measurements_def emit_seq_snd emit_seq_fst)

text \<open>
  C5. A multimeter skill whose \<open>powerPerHour\<close> converts to the float \<open>x\<close> gives the device
  the field \<open>energyInKWH = x / 1000\<close> (the division of floats). The metric emitter, given a
  list with a present device that has this field, and running to its end, prints in the
  group \<open>smarthome_powerAvg\<close>, after the lines of the devices before it, the line of the
  device with \<open>int(energyInKWH * 3600000)\<close>, the product of floats truncated to an integer,
  in a field of width 15. With \<open>powerPerHour = 500\<close> the field is 0.5 and the number is
  1800000: both are exact in binary64.
\<close>

theorem power_per_hour_to_joule:
  assumes "getitem skill ''type'' = Inr (JStr ''SmartHomeMultimeter'')"
      and "getitem skill ''powerPerHour'' = Inr p"
      and "py_float fstr p = Inr x"
      and "dev ''energyInKWH'' = Some (JFloat (float_div x 1000))"
      and "dev ''present'' = Some pres" and "truthy pres" and "dev ''id'' = Some i"
      and "snd (print_smart_home_measurements istr (xs @ dev # ys)) = None"
  shows "(\<exists>sd'. normalize_skill fstr skill sd = Inr sd' \<and>
               sd' ''energyInKWH'' = Some (JFloat (float_div x 1000))) \<and>
         (\<exists>y pre post.
            float_mul (float_div x 1000) 3600000 = Some y \<and>
            m_powerAvg_dev istr dev =
              ([DevLine ''smarthome_powerAvg'' i [S ''.value '', I15 (trunc y)]], None) \<and>
            print_smart_home_measurements istr (xs @ dev # ys) =
              (pre @ [blank, Multigraph ''smarthome_powerAvg''] @
               fst (emit_for (m_powerAvg_dev istr) xs) @
               [DevLine ''smarthome_powerAvg'' i [S ''.value '', I15 (trunc y)]] @ post, None))"
proof -
  let ?devs = "xs @ dev # ys"
  have "normalize_skill fstr skill sd = multimeter fstr skill sd"
    using assms(1) by (simp add: normalize_skill_def)
  with multimeter_energy [OF assms(2,3)]
  have norm: "\<exists>sd'. normalize_skill fstr skill sd = Inr sd' \<and>
               sd' ''energyInKWH'' = Some (JFloat (float_div x 1000))"
    by simp
  note complete = measurements_complete [OF assms(8)]
  have split: "m_powerAvg istr ?devs =
      emit_seq (say [blank, Multigraph ''smarthome_powerAvg''])
        (emit_seq (emit_for (m_powerAvg_dev istr) xs)
          (emit_seq (m_powerAvg_dev istr dev) (emit_for (m_powerAvg_dev istr) ys)))"
    by (simp add: m_powerAvg_def emit_for_append)
  with complete(1) have ok:
    "snd (emit_for (m_powerAvg_dev istr) xs) = None"
    "snd (m_powerAvg_dev istr dev) = None"
    "snd (emit_for (m_powerAvg_dev istr) ys) = None"
    by (simp_all add: emit_seq_snd)
  have body: "m_powerAvg_dev istr dev =
      emit_get (joule istr (JFloat (float_div x 1000))) (\<lambda>energyInJoule.
        ([DevLine ''smarthome_powerAvg'' i [S ''.value '', I15 energyInJoule]], None))"
    using assms(4-7) by (simp add: m_powerAvg_dev_def)
  from ok(2) obtain n where n: "joule istr (JFloat (float_div x 1000)) = Inr n"
    unfolding body emit_get_snd by blast
  then obtain y where y: "float_mul (float_div x 1000) 3600000 = Some y" and ny: "n = trunc y"
    by (cases "float_mul (float_div x 1000) 3600000") simp_all
  let ?line = "DevLine ''smarthome_powerAvg'' i [S ''.value '', I15 (trunc y)]"
  have line: "m_powerAvg_dev istr dev = ([?line], None)"
    by (simp add: body y)
  have "fst (m_powerAvg istr ?devs) =
      [blank, Multigraph ''smarthome_powerAvg''] @ fst (emit_for (m_powerAvg_dev istr) xs) @
      [?line] @ fst (emit_for (m_powerAvg_dev istr) ys)"
    unfolding split using ok by (simp add: emit_seq_fst line)
  with complete(2) have "fst (print_smart_home_measurements istr ?devs) =
      fst (emit_all
             [m_temperatures ?devs, m_humidity ?devs, m_target ?devs, m_detail ?devs,
              m_modes istr ?devs, m_modes_detail istr ?devs, m_battery ?devs,
              m_batterylow ?devs, m_voltage ?devs, m_power ?devs]) @
      [blank, Multigraph ''smarthome_powerAvg''] @ fst (emit_for (m_powerAvg_dev istr) xs) @
      [?line] @
      (fst (emit_for (m_powerAvg_dev istr) ys) @
       fst (emit_all [m_energy ?devs, m_powerswitch istr ?devs]))"
    by simp
  with assms(8) have "\<exists>pre post. print_smart_home_measurements istr ?devs =
      (pre @ [blank, Multigraph ''smarthome_powerAvg''] @
       fst (emit_for (m_powerAvg_dev istr) xs) @ [?line] @ post, None)"
    by (metis prod.collapse)
  with y line norm show ?thesis by blast
qed

lemma meter_run: "getDevices no_parse meter_data = Inr [meter_device]"
  by (simp add: getDevices_def getSimplifiedDevices_def meter_data_def meter_skill_def
      store_device_def normalize_device_def normalize_unit_def normalize_skill_def
      multimeter_def copy_if_present_def energy_def float_of_500 half_kwh
      py_sorted_def meter_device_def five_fields_def field_def del: py_float.simps)

lemma meter_output:
  "print_smart_home_measurements no_parse [meter_device] =
     ([Multigraph ''temperatures'',
       blank, Multigraph ''humidity'',
       blank2, Multigraph ''temperatures_target'',
       blank, MultigraphDev ''temperatures.t'' (JInt 17),
       blank2, Multigraph ''thermostat_modes'',
       blank, Multigraph ''battery'',
       blank, Multigraph ''batterylow'',
       blank, Multigraph ''voltage'',
       blank, Multigraph ''smarthome_power'',
       DevLine ''smarthome_power'' (JInt 17) [S ''.value '', V (JFloat (226 / 5))],
       blank, Multigraph ''smarthome_powerAvg'',
       DevLine ''smarthome_powerAvg'' (JInt 17) [S ''.value '', I15 1800000],
       blank, Multigraph ''energy'',
       DevLine ''energy'' (JInt 17) [S ''.value '', V (JFloat (1 / 2))],
       blank, Multigraph ''smarthome_powerswitch''], None)"
  by (simp add: print_smart_home_measurements_def m_sections meter_device_def five_fields_def
      value_line_def m_detail_dev_def m_modes_detail_dev_def m_powerAvg_dev_def has_value_def
      half_kwh_joule trunc_joule)

theorem power_per_hour_to_joule_witness:
  "getDevices no_parse meter_data = Inr [meter_device] \<and>
   (\<exists>sd'. normalize_skill no_parse meter_skill Map.empty = Inr sd' \<and>
          sd' ''energyInKWH'' = Some (JFloat (1 / 2))) \<and>
   m_powerAvg_dev no_parse meter_device =
     ([DevLine ''smarthome_powerAvg'' (JInt 17) [S ''.value '', I15 1800000]], None) \<and>
   (\<exists>pre post. print_smart_home_measurements no_parse [meter_device] =
      (pre @ [blank, Multigraph ''smarthome_powerAvg''] @
       [DevLine ''smarthome_powerAvg'' (JInt 17) [S ''.value '', I15 1800000]] @ post, None))"
proof -
  have ty: "getitem meter_skill ''type'' = Inr (JStr ''SmartHomeMultimeter'')"
    and p: "getitem meter_skill ''powerPerHour'' = Inr (JInt 500)"
    by (simp_all add: meter_skill_def)
  have e: "meter_device ''energyInKWH'' = Some (JFloat (float_div 500 1000))"
    and pres: "meter_device ''present'' = Some (JBool True)"
    and i: "meter_device ''id'' = Some (JInt 17)"
    by (simp_all add: meter_device_def five_fields_def half_kwh)
  have t: "truthy (JBool True)" by simp
  have c: "snd (print_smart_home_measurements no_parse ([] @ meter_device # [])) = None"
    by (simp add: meter_output)
  from power_per_hour_to_joule [where sd = Map.empty and istr = no_parse and xs = "[]"
      and ys = "[]", OF ty p float_of_500 e pres t i c]
  show ?thesis by (simp add: half_kwh half_kwh_joule trunc_joule meter_run)
qed



















end
